theory Spec2Isabelle
  imports Complex_Main "HOL-Library.Multiset"
begin

section \<open>Text of a configuration file: \<open>remove_comments\<close> (igm/common.py, lines 87-90)\<close>




text \<open>\<open>s.startswith(p)\<close> for one prefix, and for a tuple of prefixes.\<close>

fun startswith1 :: "string \<Rightarrow> string \<Rightarrow> bool" where
  "startswith1 s [] = True"
| "startswith1 [] (p # ps) = False"
| "startswith1 (c # cs) (p # ps) = (c = p \<and> startswith1 cs ps)"







section \<open>Modules, errors and the import environment\<close>

text \<open>
  A loaded Python module, as far as the orchestration code looks at it: its
  \<open>__name__\<close>, the names of its attributes other than \<open>dependencies\<close>, and the
  \<open>dependencies\<close> attribute, a list of module names, when the module has one.
  Python compares and hashes module objects by identity, and the import system keeps
  one object per imported path; a value of this type stands for one module object,
  so equality of values stands for \<open>is\<close>.
\<close>

record module =
  mod_name :: string
  mod_attrs :: "string list"
  dependencies :: "string list option"

definition hasattr :: "module \<Rightarrow> string \<Rightarrow> bool" where
  "hasattr m a =
     (if a = ''dependencies'' then dependencies m \<noteq> None else a \<in> set (mod_attrs m))"

text \<open>
  The exceptions that the modelled functions raise or let through. The message of
  \<open>ModuleNotFoundError\<close> and of \<open>SystemExit\<close> is kept as text. The message of the
  \<open>AttributeError\<close> of \<open>validate_module\<close> interpolates \<open>repr(module)\<close> and the name of
  the missing function; the model keeps these two values. \<open>OtherException\<close> stands
  for an exception of any other class, by the name of the class.
\<close>

datatype error =
    ModuleNotFoundError string
  | AttributeError module string
  | IndexError
  | KeyError string
  | TypeError
  | ValueError
  | SystemExit string
  | OtherException string

text \<open>\<open>except ModuleNotFoundError\<close> catches the exceptions of this class only.\<close>

fun is_module_not_found :: "error \<Rightarrow> bool" where
  "is_module_not_found (ModuleNotFoundError msg) = True"
| "is_module_not_found e = False"

text \<open>
  What the code reads from the running interpreter:
  \<^item> \<open>find_and_load name\<close> is the outcome of the import system for an absolute,
    non-empty module name: the module, or the exception that the import raises, which
    is \<open>ModuleNotFoundError\<close> when no module of that name is found and can be any
    other exception (raised by the code of the module that is imported, for one);
  \<^item> \<open>igm_parent\<close> is the text of \<open>Path(igm.__file__).parent\<close>;
  \<^item> \<open>set_rank\<close> fixes the order in which \<open>list(s)\<close> enumerates a Python set of
    modules. That order depends on the hashes of the elements (for modules, their
    addresses); the model enumerates by increasing rank, and every order of
    enumeration is the one of some rank.
\<close>

record pyenv =
  find_and_load :: "string \<Rightarrow> error + module"
  igm_parent :: string
  set_rank :: "module \<Rightarrow> nat"

text \<open>
  \<open>importlib.import_module(name)\<close>, called without a package: a name that starts with
  a dot is a relative import and raises \<open>TypeError\<close>, the empty name raises
  \<open>ValueError\<close>, and every other name goes to the import system.
\<close>

definition import_module :: "pyenv \<Rightarrow> string \<Rightarrow> error + module" where
  "import_module env name =
     (if startswith1 name ''.'' then Inl TypeError
      else if name = [] then Inl ValueError
      else find_and_load env name)"

text \<open>
  A computation that emits messages (through \<open>logging.info\<close> or \<open>print\<close>) and then
  returns or raises: the messages in order, and the outcome.
\<close>

type_synonym 'a logged = "string list \<times> (error + 'a)"

definition bind_logged :: "'a logged \<Rightarrow> ('a \<Rightarrow> 'b logged) \<Rightarrow> 'b logged" where
  "bind_logged c f =
     (case c of
        (l, Inl e) \<Rightarrow> (l, Inl e)
      | (l, Inr x) \<Rightarrow> (case f x of (l', r) \<Rightarrow> (l @ l', r)))"

section \<open>Validation: \<open>validate_module\<close> (lines 183-191)\<close>

text \<open>
  \<^verbatim>\<open>
  required_functions = ["params", "initialize", "finalize", "update"]
  for function in required_functions:
      if not hasattr(module, function):
          raise AttributeError(f"Module {module} is missing the required function ({function}). ...", ...)
  \<close>
\<close>

definition required_functions :: "string list" where
  "required_functions = [''params'', ''initialize'', ''finalize'', ''update'']"

fun check_functions :: "module \<Rightarrow> string list \<Rightarrow> error + unit" where
  "check_functions m [] = Inr ()"
| "check_functions m (function # rest) =
     (if \<not> hasattr m function then Inl (AttributeError m function)
      else check_functions m rest)"

definition validate_module :: "module \<Rightarrow> error + unit" where
  "validate_module m = check_functions m required_functions"

section \<open>Resolution: \<open>load_modules_from_directory\<close> (lines 194-220), \<open>load_modules\<close> (lines 159-180)\<close>

definition module_path :: "string \<Rightarrow> string \<Rightarrow> string" where
  "module_path module_folder module_name =
     ''igm.modules.'' @ module_folder @ ''.'' @ module_name"

definition info_error_importing :: "string \<Rightarrow> string" where
  "info_error_importing path =
     ''Error importing module: '' @ path @
     '', checking for custom package in current working directory.''"

definition info_trying_custom :: "string \<Rightarrow> string" where
  "info_trying_custom module_name =
     ''Trying to import custom module from current working directory (folder or .py): ''
     @ module_name"

definition not_found_message :: "pyenv \<Rightarrow> string \<Rightarrow> string \<Rightarrow> string" where
  "not_found_message env module_folder module_name =
     ''Can not find module '' @ module_name @ ''. Make sure it is either in the 1) ''
     @ igm_parent env @ ''/modules/'' @ module_folder
     @ '' directory or 2) in your current working directory.''"

text \<open>
  The \<open>try\<close> statement of the loop body (lines 200-215): the framework namespace of
  the folder first; when that import raises \<open>ModuleNotFoundError\<close>, two messages are
  logged and the plain name is imported; when that raises \<open>ModuleNotFoundError\<close> too,
  a \<open>ModuleNotFoundError\<close> with the message of line 214 is raised. An exception of
  another class is caught by neither \<open>except\<close> clause and leaves the function.
\<close>

definition import_with_fallback :: "pyenv \<Rightarrow> string \<Rightarrow> string \<Rightarrow> module logged" where
  "import_with_fallback env module_folder module_name =
     (case import_module env (module_path module_folder module_name) of
        Inr m \<Rightarrow> ([], Inr m)
      | Inl e \<Rightarrow>
          if is_module_not_found e then
            (case import_module env module_name of
               Inr m \<Rightarrow>
                 ([info_error_importing (module_path module_folder module_name),
                   info_trying_custom module_name], Inr m)
             | Inl e' \<Rightarrow>
                 if is_module_not_found e' then
                   ([info_error_importing (module_path module_folder module_name),
                     info_trying_custom module_name],
                    Inl (ModuleNotFoundError
                          (not_found_message env module_folder module_name)))
                 else
                   ([info_error_importing (module_path module_folder module_name),
                     info_trying_custom module_name], Inl e'))
          else ([], Inl e))"

text \<open>
  The loop over \<open>modules_list\<close>; the last argument is \<open>imported_modules\<close>, the list
  built so far. Each module is validated before it is appended.
\<close>

fun load_loop :: "pyenv \<Rightarrow> string \<Rightarrow> string list \<Rightarrow> module list \<Rightarrow> module list logged" where
  "load_loop env module_folder [] imported_modules = ([], Inr imported_modules)"
| "load_loop env module_folder (module_name # rest) imported_modules =
     bind_logged (import_with_fallback env module_folder module_name) (\<lambda>m.
       case validate_module m of
         Inl e \<Rightarrow> ([], Inl e)
       | Inr _ \<Rightarrow> load_loop env module_folder rest (imported_modules @ [m]))"

definition load_modules_from_directory ::
    "pyenv \<Rightarrow> string list \<Rightarrow> string \<Rightarrow> module list logged" where
  "load_modules_from_directory env modules_list module_folder =
     load_loop env module_folder modules_list []"

text \<open>\<open>modules_dict[key]\<close> on a dictionary from strings to lists of names.\<close>

definition dict_get :: "(string \<rightharpoonup> 'v) \<Rightarrow> string \<Rightarrow> 'v logged" where
  "dict_get d key = (case d key of None \<Rightarrow> ([], Inl (KeyError key)) | Some v \<Rightarrow> ([], Inr v))"

text \<open>
  \<open>load_modules\<close>: the three categories are loaded one after the other, each from the
  entry of \<open>modules_dict\<close> read just before, and the three lists are concatenated.
\<close>

definition load_modules :: "pyenv \<Rightarrow> (string \<rightharpoonup> string list) \<Rightarrow> module list logged" where
  "load_modules env modules_dict =
     bind_logged (dict_get modules_dict ''modules_preproc'') (\<lambda>names_preproc.
     bind_logged (load_modules_from_directory env names_preproc ''preproc'')
       (\<lambda>imported_preproc_modules.
     bind_logged (dict_get modules_dict ''modules_process'') (\<lambda>names_process.
     bind_logged (load_modules_from_directory env names_process ''process'')
       (\<lambda>imported_process_modules.
     bind_logged (dict_get modules_dict ''modules_postproc'') (\<lambda>names_postproc.
     bind_logged (load_modules_from_directory env names_postproc ''postproc'')
       (\<lambda>imported_postproc_modules.
       ([], Inr (imported_preproc_modules @ imported_process_modules
                 @ imported_postproc_modules))))))))"

section \<open>Dependency expansion: \<open>has_dependencies\<close>, \<open>add_dependencies\<close> (lines 223-255)\<close>

definition has_dependencies :: "module \<Rightarrow> bool" where
  "has_dependencies m = hasattr m ''dependencies''"

definition directories_to_search :: "string list" where
  "directories_to_search = [''preproc'', ''process'', ''postproc'']"

definition info_found_dependencies :: "string \<Rightarrow> string" where
  "info_found_dependencies directory =
     ''Found dependencies in directory '' @ directory @
     '' or current working directory. Checking next module for dependencies.''"

definition info_could_not_find :: "string \<Rightarrow> string" where
  "info_could_not_find directory =
     ''Could not find dependencies in directory '' @ directory @
     '' or current working directory. Checking next IGM directory.''"

text \<open>
  The Python set \<open>imported_dependencies\<close> is kept as the list of its elements, without
  repetition, in the order of their insertion. \<open>set_add\<close> is \<open>s.add(x)\<close>;
  \<open>list_of_set\<close> is \<open>list(s)\<close>, the elements by increasing rank.
\<close>

definition set_add :: "'a \<Rightarrow> 'a list \<Rightarrow> 'a list" where
  "set_add x s = (if x \<in> set s then s else s @ [x])"

definition list_of_set :: "pyenv \<Rightarrow> module list \<Rightarrow> module list" where
  "list_of_set env s = sort_key (set_rank env) s"

text \<open>
  The inner loop over \<open>directories_to_search\<close> (lines 242-253), for the dependency names
  of one module. The whole list of names is loaded from one directory, with the
  working directory as the fallback of every name. When that returns, element 0 of the
  loaded list is added to the set (an \<open>IndexError\<close> when the list is empty), a message
  is logged and the loop is left. Only \<open>ModuleNotFoundError\<close> is caught: it is logged and
  the next directory is tried. Any other exception leaves \<open>add_dependencies\<close>.
\<close>

fun search_directories ::
    "pyenv \<Rightarrow> string list \<Rightarrow> string list \<Rightarrow> module list \<Rightarrow> module list logged" where
  "search_directories env module_dependencies [] imported_dependencies =
     ([], Inr imported_dependencies)"
| "search_directories env module_dependencies (directory # rest) imported_dependencies =
     (case load_modules_from_directory env module_dependencies directory of
        (l, Inr dependent_module) \<Rightarrow>
          (case dependent_module of
             [] \<Rightarrow> (l, Inl IndexError)
           | m # _ \<Rightarrow>
               (l @ [info_found_dependencies directory],
                Inr (set_add m imported_dependencies)))
      | (l, Inl e) \<Rightarrow>
          (if is_module_not_found e then
             (case search_directories env module_dependencies rest imported_dependencies of
                (l', r) \<Rightarrow> (l @ info_could_not_find directory # l', r))
           else (l, Inl e)))"

text \<open>
  The outer loop over \<open>imported_modules\<close> (lines 231-253); the last argument is the set
  \<open>imported_dependencies\<close>.
\<close>

fun dependencies_loop :: "pyenv \<Rightarrow> module list \<Rightarrow> module list \<Rightarrow> module list logged" where
  "dependencies_loop env [] imported_dependencies = ([], Inr imported_dependencies)"
| "dependencies_loop env (m # rest) imported_dependencies =
     (if has_dependencies m then
        (case dependencies m of
           None \<Rightarrow> ([], Inl (AttributeError m ''dependencies''))
         | Some module_dependencies \<Rightarrow>
             bind_logged
               (search_directories env module_dependencies directories_to_search
                  imported_dependencies)
               (dependencies_loop env rest))
      else dependencies_loop env rest imported_dependencies)"

definition add_dependencies :: "pyenv \<Rightarrow> module list \<Rightarrow> module list logged" where
  "add_dependencies env imported_modules =
     bind_logged (dependencies_loop env imported_modules []) (\<lambda>imported_dependencies.
       ([], Inr (imported_modules @ list_of_set env imported_dependencies)))"

text \<open>
  The search order that the code realises for one dependency name, written out location
  by location, to be compared with \<open>add_dependencies\<close>: the \<open>preproc\<close> namespace, the
  working directory, the \<open>process\<close> namespace, the \<open>postproc\<close> namespace.
  \<open>first_found\<close> imports the paths of a list in order: the first module imported is
  the result, a \<open>ModuleNotFoundError\<close> leads to the next path, and any other exception
  ends the search.
\<close>

definition dependency_locations :: "string \<Rightarrow> string list" where
  "dependency_locations d =
     [module_path ''preproc'' d, d, module_path ''process'' d, module_path ''postproc'' d]"

fun first_found :: "pyenv \<Rightarrow> string list \<Rightarrow> error + module option" where
  "first_found env [] = Inr None"
| "first_found env (path # rest) =
     (case import_module env path of
        Inr m \<Rightarrow> Inr (Some m)
      | Inl e \<Rightarrow> if is_module_not_found e then first_found env rest else Inl e)"

text \<open>
  The search order of the specification, for comparison: the three framework
  namespaces first, the working directory last.
\<close>

definition spec_dependency_locations :: "string \<Rightarrow> string list" where
  "spec_dependency_locations d =
     [module_path ''preproc'' d, module_path ''process'' d, module_path ''postproc'' d, d]"

section \<open>Parameter overrides: \<open>overide_from_json_file\<close> (lines 132-156)\<close>

text \<open>
  The values that \<open>json.loads\<close> produces. An object is the list of its items in
  insertion order; a key is looked up with \<open>map_of\<close>.
\<close>

datatype json =
    JNull
  | JBool bool
  | JInt int
  | JFloat real
  | JStr string
  | JArr "json list"
  | JObj "(string \<times> json) list"

text \<open>\<open>needle in haystack\<close> for two strings: the needle occurs as a substring.\<close>

fun is_substring :: "string \<Rightarrow> string \<Rightarrow> bool" where
  "is_substring needle [] = startswith1 [] needle"
| "is_substring needle (c # cs) = (startswith1 (c # cs) needle \<or> is_substring needle cs)"

text \<open>
  \<open>key in v\<close> for a string \<open>key\<close>: membership in a list, substring of a string, key of
  a dictionary; a \<open>TypeError\<close> for the values that are not iterable.
\<close>

fun py_in :: "string \<Rightarrow> json \<Rightarrow> error + bool" where
  "py_in key (JArr xs) = Inr (JStr key \<in> set xs)"
| "py_in key (JStr s) = Inr (is_substring key s)"
| "py_in key (JObj items) = Inr (key \<in> set (map fst items))"
| "py_in key v = Inl TypeError"

text \<open>\<open>v[key]\<close> for a string \<open>key\<close>: defined on dictionaries only.\<close>

fun subscript :: "json \<Rightarrow> string \<Rightarrow> error + json" where
  "subscript (JObj items) key =
     (case map_of items key of None \<Rightarrow> Inl (KeyError key) | Some v \<Rightarrow> Inr v)"
| "subscript v key = Inl TypeError"

text \<open>
  The argument parser, as far as the function uses it: the default value of every
  registered option. \<open>LIST\<close>, the keys of \<open>vars(parser.parse_args(args=[]))\<close>, is the
  domain of this map. \<open>parser.set_defaults(**kw)\<close> overrides the defaults of the keys
  of \<open>kw\<close>.
\<close>

type_synonym parser = "string \<rightharpoonup> json"

definition set_defaults :: "parser \<Rightarrow> (string \<times> json) list \<Rightarrow> parser" where
  "set_defaults parser kw = parser ++ map_of kw"

definition deprecation_banner :: string where
  "deprecation_banner =
     '' ------- CHECK THE WIKI TO CHANGE YOUR PARAM FILE AND USER MODULES -------------''"

definition deprecation_message :: string where
  "deprecation_message =
     ''WARNING: the parameter time_step is deprecated, UPDATE you params.json file''"

definition unknown_key_warning :: "string \<Rightarrow> string" where
  "unknown_key_warning key =
     ''WARNING: the following parameters of the json file do not exist in igm: ''
     @ '' '' @ key"

text \<open>
  The function from line 132 on. \<open>dic_params\<close> is the value that \<open>json.loads\<close> returned
  for the text of the parameter file after \<open>remove_comments\<close> (lines 117-130 read and
  parse the file). The messages are the lines printed; \<open>sys.exit(msg)\<close> is the
  exception \<open>SystemExit msg\<close>. The result is the parser with its new defaults.
\<close>

definition overide_from_json_file :: "parser \<Rightarrow> json \<Rightarrow> bool \<Rightarrow> parser logged" where
  "overide_from_json_file parser dic_params check_if_params_exist =
     (case subscript dic_params ''modules_process'' of
        Inl e \<Rightarrow> ([], Inl e)
      | Inr modules_process \<Rightarrow>
          (case py_in ''time_step'' modules_process of
             Inl e \<Rightarrow> ([], Inl e)
           | Inr deprecated \<Rightarrow>
               if deprecated then ([deprecation_banner], Inl (SystemExit deprecation_message))
               else
                 (case dic_params of
                    JObj items \<Rightarrow>
                      (let warnings =
                             (if check_if_params_exist then
                                map unknown_key_warning
                                  (filter (\<lambda>key. parser key = None) (map fst items))
                              else []);
                           filtered_dict = filter (\<lambda>(key, value). parser key \<noteq> None) items
                       in (warnings, Inr (set_defaults parser filtered_dict)))
                  | _ \<Rightarrow> ([], Inl TypeError))))"

section \<open>The set-up of a run\<close>

text \<open>
  Modelled from the spec: the run driver, the caller of \<open>overide_from_json_file\<close>,
  \<open>load_modules\<close> and \<open>add_dependencies\<close>, which is not among the source files. In the
  words of the specification, the parameter-override step comes before any module is
  resolved (section 8, property 6) and a failure of a step is fatal to the run (section
  7); the names of the three categories are then resolved and validated (sections 4.2
  and 4.3) and the dependencies expanded (section 4.4).
\<close>

definition run_setup ::
    "pyenv \<Rightarrow> parser \<Rightarrow> json \<Rightarrow> bool \<Rightarrow> (string \<rightharpoonup> string list) \<Rightarrow> module list logged" where
  "run_setup env parser dic_params check_if_params_exist modules_dict =
     bind_logged (overide_from_json_file parser dic_params check_if_params_exist)
       (\<lambda>parser'.
     bind_logged (load_modules env modules_dict) (\<lambda>imported_modules.
       add_dependencies env imported_modules))"

section \<open>Example modules, environment and configurations\<close>

text \<open>
  A small installation on which the statements below are evaluated: the framework has
  the modules \<open>A\<close> and \<open>H\<close> in \<open>preproc\<close>, \<open>B\<close>, \<open>D\<close>, \<open>G\<close>, \<open>X\<close> and \<open>old\<close> in
  \<open>process\<close>, \<open>C\<close> in \<open>postproc\<close>, and the working directory has a module \<open>D\<close> of
  its own. \<open>B\<close> and \<open>C\<close> both declare the dependency \<open>D\<close>; \<open>G\<close> declares \<open>A\<close> and
  \<open>H\<close>; \<open>X\<close> declares a name that no location has; \<open>old\<close> exposes
  \<open>register_params\<close> in place of \<open>params\<close>. \<open>Y\<close> and \<open>E\<close> are two further modules:
  \<open>Y\<close> declares the dependency \<open>old\<close>, and \<open>E\<close> declares the empty name. The
  import of \<open>broken\<close> in \<open>process\<close> raises a \<open>SyntaxError\<close>, and a path that the
  installation does not have raises \<open>ModuleNotFoundError\<close>.
\<close>

definition example_module :: "string \<Rightarrow> string list option \<Rightarrow> module" where
  "example_module name deps =
     \<lparr>mod_name = name,
      mod_attrs = [''params'', ''initialize'', ''update'', ''finalize''],
      dependencies = deps\<rparr>"

definition mod_A :: module where
  "mod_A = example_module ''igm.modules.preproc.A'' None"

definition mod_H :: module where
  "mod_H = example_module ''igm.modules.preproc.H'' None"

definition mod_B :: module where
  "mod_B = example_module ''igm.modules.process.B'' (Some [''D''])"

definition mod_D_process :: module where
  "mod_D_process = example_module ''igm.modules.process.D'' None"

definition mod_G :: module where
  "mod_G = example_module ''igm.modules.process.G'' (Some [''A'', ''H''])"

definition mod_X :: module where
  "mod_X = example_module ''igm.modules.process.X'' (Some [''missing''])"

definition mod_Y :: module where
  "mod_Y = example_module ''igm.modules.process.Y'' (Some [''old''])"

definition mod_E :: module where
  "mod_E = example_module ''igm.modules.process.E'' (Some [[]])"

definition mod_old :: module where
  "mod_old =
     \<lparr>mod_name = ''igm.modules.process.old'',
      mod_attrs = [''register_params'', ''initialize'', ''update'', ''finalize''],
      dependencies = None\<rparr>"

definition mod_C :: module where
  "mod_C = example_module ''igm.modules.postproc.C'' (Some [''D''])"

definition mod_D_cwd :: module where
  "mod_D_cwd = example_module ''D'' None"

definition example_env :: pyenv where
  "example_env =
     \<lparr>find_and_load = (\<lambda>path.
        case map_of
          [(''igm.modules.preproc.A'', Inr mod_A),
           (''igm.modules.preproc.H'', Inr mod_H),
           (''igm.modules.process.B'', Inr mod_B),
           (''igm.modules.process.D'', Inr mod_D_process),
           (''igm.modules.process.G'', Inr mod_G),
           (''igm.modules.process.X'', Inr mod_X),
           (''igm.modules.process.old'', Inr mod_old),
           (''igm.modules.process.broken'', Inl (OtherException ''SyntaxError'')),
           (''igm.modules.postproc.C'', Inr mod_C),
           (''D'', Inr mod_D_cwd)] path of
          Some outcome \<Rightarrow> outcome
        | None \<Rightarrow> Inl (ModuleNotFoundError (''No module named '' @ path))),
      igm_parent = ''/opt/igm'',
      set_rank = (\<lambda>m. length (mod_name m))\<rparr>"

definition example_modules_dict :: "string \<rightharpoonup> string list" where
  "example_modules_dict =
     map_of [(''modules_preproc'', [''A'', ''D'']),
             (''modules_process'', [''B'', ''G'']),
             (''modules_postproc'', [''C''])]"

text \<open>
  A parser with three registered options, a parameter file that overrides one of them
  and carries one unregistered key, a parameter file with the retired key, and a
  parameter file whose \<open>modules_process\<close> entry is a string and not a list.
\<close>

definition example_parser :: parser where
  "example_parser =
     map_of [(''working_dir'', JStr []),
             (''modules_process'', JArr [JStr ''iceflow'', JStr ''time'', JStr ''thk'']),
             (''gpu'', JInt 0)]"

definition example_params :: json where
  "example_params =
     JObj [(''modules_process'', JArr [JStr ''iceflow'']),
           (''gpu'', JInt 1),
           (''colour'', JStr ''blue'')]"

definition example_params_string :: json where
  "example_params_string = JObj [(''modules_process'', JStr ''my_time_stepper'')]"

definition example_params_deprecated :: json where
  "example_params_deprecated =
     JObj [(''modules_process'', JArr [JStr ''iceflow'', JStr ''time_step'']),
           (''colour'', JStr ''blue'')]"



section \<open>Comment stripping\<close>

lemma startswith1_take: "startswith1 s p = (take (length p) s = p)"
  by (induction s p rule: startswith1.induct) auto












section \<open>Messages and outcomes of sequenced computations\<close>

lemma snd_bind_logged:
  "snd (bind_logged c f) = (case snd c of Inl e \<Rightarrow> Inl e | Inr x \<Rightarrow> snd (f x))"
  by (cases c) (auto simp: bind_logged_def split: sum.splits prod.splits)

lemma fst_bind_logged:
  "fst (bind_logged c f) = (case snd c of Inl e \<Rightarrow> fst c | Inr x \<Rightarrow> fst c @ fst (f x))"
  by (cases c) (auto simp: bind_logged_def split: sum.splits prod.splits)

lemmas example_defs =
  example_env_def example_module_def mod_A_def mod_B_def mod_C_def mod_H_def mod_G_def
  mod_X_def mod_Y_def mod_E_def mod_old_def mod_D_process_def mod_D_cwd_def example_modules_dict_def
  example_parser_def example_params_def example_params_deprecated_def
  example_params_string_def

lemmas program_defs =
  add_dependencies_def load_modules_def load_modules_from_directory_def bind_logged_def
  import_with_fallback_def import_module_def module_path_def validate_module_def required_functions_def
  hasattr_def has_dependencies_def directories_to_search_def set_add_def list_of_set_def
  dict_get_def overide_from_json_file_def set_defaults_def run_setup_def

section \<open>Validation\<close>

lemma check_functions_Inr:
  "(check_functions m fs = Inr ()) = (\<forall>f \<in> set fs. hasattr m f)"
  by (induction fs) auto

lemma check_functions_Inl:
  "check_functions m fs = Inl e \<Longrightarrow>
   \<exists>function. e = AttributeError m function \<and> function \<in> set fs \<and> \<not> hasattr m function"
  by (induction fs) (auto split: if_splits)

text \<open>
  Claim C2, as amended. The four capabilities that validation requires are \<open>params\<close>,
  \<open>initialize\<close>, \<open>finalize\<close> and \<open>update\<close>. A module passes validation if and only if
  it has all four; otherwise validation fails with an \<open>AttributeError\<close> that names the
  module and one of the four that the module lacks.
\<close>

theorem validate_module_requires_params:
  "(validate_module m = Inr ()) =
     (hasattr m ''params'' \<and> hasattr m ''initialize'' \<and> hasattr m ''finalize''
      \<and> hasattr m ''update'') \<and>
   (\<forall>e. validate_module m = Inl e \<longrightarrow>
      (\<exists>function. e = AttributeError m function \<and>
         function \<in> {''params'', ''initialize'', ''finalize'', ''update''} \<and>
         \<not> hasattr m function))"
proof -
  have a: "(validate_module m = Inr ()) =
     (hasattr m ''params'' \<and> hasattr m ''initialize'' \<and> hasattr m ''finalize''
      \<and> hasattr m ''update'')"
    by (simp add: validate_module_def required_functions_def check_functions_Inr)
  have b: "\<forall>e. validate_module m = Inl e \<longrightarrow>
      (\<exists>function. e = AttributeError m function \<and>
         function \<in> {''params'', ''initialize'', ''finalize'', ''update''} \<and>
         \<not> hasattr m function)"
  proof (intro allI impI)
    fix e
    assume "validate_module m = Inl e"
    then have "check_functions m [''params'', ''initialize'', ''finalize'', ''update''] = Inl e"
      by (simp add: validate_module_def required_functions_def)
    from check_functions_Inl [OF this] show
      "\<exists>function. e = AttributeError m function \<and>
         function \<in> {''params'', ''initialize'', ''finalize'', ''update''} \<and>
         \<not> hasattr m function"
      by auto
  qed
  from a b show ?thesis by blast
qed

theorem validate_module_requires_params_witness:
  "validate_module mod_old = Inl (AttributeError mod_old ''params'') \<and>
   \<not> hasattr mod_old ''params'' \<and> validate_module mod_A = Inr ()"
proof -
  have v: "validate_module mod_old = Inl (AttributeError mod_old ''params'')"
    by (simp add: example_defs program_defs)
  have h: "hasattr mod_A ''params'' \<and> hasattr mod_A ''initialize'' \<and> hasattr mod_A ''finalize''
      \<and> hasattr mod_A ''update''"
    by (simp add: example_defs program_defs)
  from validate_module_requires_params [of mod_old] v
  have "\<exists>function. AttributeError mod_old ''params'' = AttributeError mod_old function \<and>
      function \<in> {''params'', ''initialize'', ''finalize'', ''update''} \<and>
      \<not> hasattr mod_old function"
    by simp
  then have "\<not> hasattr mod_old ''params''" by auto
  moreover from validate_module_requires_params [of mod_A] h
  have "validate_module mod_A = Inr ()" by blast
  ultimately show ?thesis using v by blast
qed

text \<open>
  The claim as the specification words it fails on the module \<open>old\<close>: it has
  \<open>register_params\<close>, \<open>initialize\<close>, \<open>update\<close> and \<open>finalize\<close>, and validation rejects
  it for the missing \<open>params\<close>.
\<close>

theorem validate_module_register_params_counterexample:
  "hasattr mod_old ''register_params'' \<and> hasattr mod_old ''initialize'' \<and>
   hasattr mod_old ''update'' \<and> hasattr mod_old ''finalize'' \<and>
   validate_module mod_old = Inl (AttributeError mod_old ''params'')"
  by (simp add: example_defs program_defs)

section \<open>Resolution\<close>

lemma load_loop_Inr:
  "snd (load_loop env folder names acc) = Inr ms \<Longrightarrow>
   \<exists>ms'. ms = acc @ ms' \<and>
     map (\<lambda>n. snd (import_with_fallback env folder n)) names = map Inr ms' \<and>
     (\<forall>m \<in> set ms'. validate_module m = Inr ())"
proof (induction names arbitrary: acc)
  case Nil
  then show ?case by simp
next
  case (Cons n names)
  from Cons.prems obtain m where
    m: "snd (import_with_fallback env folder n) = Inr m" and
    v: "validate_module m = Inr ()" and
    rest: "snd (load_loop env folder names (acc @ [m])) = Inr ms"
    by (auto simp: snd_bind_logged split: sum.splits)
  from Cons.IH [OF rest] obtain ms' where
    "ms = (acc @ [m]) @ ms'"
    "map (\<lambda>n. snd (import_with_fallback env folder n)) names = map Inr ms'"
    "\<forall>m \<in> set ms'. validate_module m = Inr ()" by blast
  with m v have "ms = acc @ (m # ms') \<and>
     map (\<lambda>n. snd (import_with_fallback env folder n)) (n # names) = map Inr (m # ms') \<and>
     (\<forall>m \<in> set (m # ms'). validate_module m = Inr ())" by simp
  then show ?case by blast
qed

text \<open>
  Names that all resolve to valid modules are passed over: the loop goes on with the
  names after them.
\<close>

lemma load_loop_append:
  "\<forall>n \<in> set before.
     \<exists>m. snd (import_with_fallback env folder n) = Inr m \<and> validate_module m = Inr () \<Longrightarrow>
   \<exists>ms. snd (load_loop env folder (before @ rest) acc) =
        snd (load_loop env folder rest (acc @ ms))"
proof (induction before arbitrary: acc)
  case Nil
  have "snd (load_loop env folder ([] @ rest) acc) = snd (load_loop env folder rest (acc @ []))"
    by simp
  then show ?case by blast
next
  case (Cons n before)
  from Cons.prems obtain m where
    m: "snd (import_with_fallback env folder n) = Inr m" and
    v: "validate_module m = Inr ()" by auto
  from Cons.prems have "\<forall>n \<in> set before.
     \<exists>m. snd (import_with_fallback env folder n) = Inr m \<and> validate_module m = Inr ()"
    by simp
  from Cons.IH [OF this, of "acc @ [m]"] obtain ms where
    "snd (load_loop env folder (before @ rest) (acc @ [m])) =
     snd (load_loop env folder rest ((acc @ [m]) @ ms))" by blast
  with m v have "snd (load_loop env folder ((n # before) @ rest) acc) =
     snd (load_loop env folder rest (acc @ (m # ms)))"
    by (simp add: snd_bind_logged)
  then show ?case by blast
qed

lemma load_loop_total:
  assumes "\<forall>n \<in> set names.
     \<exists>m. snd (import_with_fallback env folder n) = Inr m \<and> validate_module m = Inr ()"
  shows "\<exists>ms. snd (load_loop env folder names acc) = Inr (acc @ ms)"
proof -
  from load_loop_append [OF assms, of "[]" acc] show ?thesis by simp
qed

text \<open>
  Claim C6, as amended. One name is imported from the framework namespace of its
  category first, under the path \<open>igm.modules.<category>.<name>\<close>; when that import
  returns a module, or raises an exception other than \<open>ModuleNotFoundError\<close>, the
  working directory is not tried (no message is logged). Only when it raises
  \<open>ModuleNotFoundError\<close> is the plain name imported from the working directory. When
  that import raises \<open>ModuleNotFoundError\<close> too, after names that all resolved to valid
  modules, loading the list fails with a \<open>ModuleNotFoundError\<close> whose message names
  the module, the framework directory of the category and the current working
  directory; when it raises another exception, loading the list fails with that
  exception.
\<close>

theorem resolution_framework_then_working_directory:
  assumes "\<forall>n \<in> set before.
     \<exists>m'. snd (import_with_fallback env folder n) = Inr m' \<and> validate_module m' = Inr ()"
  shows
   "(import_module env (''igm.modules.'' @ folder @ ''.'' @ name) = Inr m \<longrightarrow>
       import_with_fallback env folder name = ([], Inr m)) \<and>
    (import_module env (''igm.modules.'' @ folder @ ''.'' @ name) = Inl e \<and>
     \<not> is_module_not_found e \<longrightarrow>
       import_with_fallback env folder name = ([], Inl e)) \<and>
    (import_module env (''igm.modules.'' @ folder @ ''.'' @ name) = Inl (ModuleNotFoundError msg)
     \<and> import_module env name = Inr m \<longrightarrow>
       import_with_fallback env folder name =
         ([''Error importing module: '' @ ''igm.modules.'' @ folder @ ''.'' @ name @
             '', checking for custom package in current working directory.'',
           ''Trying to import custom module from current working directory (folder or .py): ''
             @ name], Inr m)) \<and>
    (import_module env (''igm.modules.'' @ folder @ ''.'' @ name) = Inl (ModuleNotFoundError msg)
     \<and> import_module env name = Inl (ModuleNotFoundError msg') \<longrightarrow>
       snd (load_modules_from_directory env (before @ name # after) folder) =
         Inl (ModuleNotFoundError
               (''Can not find module '' @ name @ ''. Make sure it is either in the 1) ''
                @ igm_parent env @ ''/modules/'' @ folder
                @ '' directory or 2) in your current working directory.''))) \<and>
    (import_module env (''igm.modules.'' @ folder @ ''.'' @ name) = Inl (ModuleNotFoundError msg)
     \<and> import_module env name = Inl e \<and> \<not> is_module_not_found e \<longrightarrow>
       snd (load_modules_from_directory env (before @ name # after) folder) = Inl e)"
proof -
  from load_loop_append [OF assms, of "name # after" "[]"] obtain ms where
    ms: "snd (load_modules_from_directory env (before @ name # after) folder) =
         snd (load_loop env folder (name # after) ms)"
    by (auto simp: load_modules_from_directory_def)
  have l: "snd (load_loop env folder (name # after) ms) =
      (case snd (import_with_fallback env folder name) of
         Inl e \<Rightarrow> Inl e
       | Inr m \<Rightarrow> (case validate_module m of
            Inl e \<Rightarrow> Inl e
          | Inr u \<Rightarrow> snd (load_loop env folder after (ms @ [m]))))"
    by (simp add: snd_bind_logged split: sum.splits)
  show ?thesis
    unfolding ms l
    by (simp add: import_with_fallback_def module_path_def not_found_message_def
        info_error_importing_def info_trying_custom_def)
qed

theorem resolution_framework_then_working_directory_witness:
  "import_with_fallback example_env ''process'' ''B'' = ([], Inr mod_B) \<and>
   import_with_fallback example_env ''postproc'' ''C'' = ([], Inr mod_C) \<and>
   import_with_fallback example_env ''process'' ''broken'' =
     ([], Inl (OtherException ''SyntaxError'')) \<and>
   import_with_fallback example_env ''preproc'' ''D'' =
     ([''Error importing module: igm.modules.preproc.D, checking for custom package in current working directory.'',
       ''Trying to import custom module from current working directory (folder or .py): D''],
      Inr mod_D_cwd) \<and>
   snd (load_modules_from_directory example_env [''B'', ''G'', ''nope'', ''X''] ''process'') =
     Inl (ModuleNotFoundError
           ''Can not find module nope. Make sure it is either in the 1) /opt/igm/modules/process directory or 2) in your current working directory.'') \<and>
   snd (load_modules_from_directory example_env [''B'', ''G'', [], ''X''] ''process'') =
     Inl ValueError"
proof -
  have before: "\<forall>n \<in> set [''B'', ''G''].
     \<exists>m'. snd (import_with_fallback example_env ''process'' n) = Inr m' \<and>
       validate_module m' = Inr ()"
    by (simp add: example_defs program_defs)
  have none: "\<forall>n \<in> set ([] :: string list).
     \<exists>m'. snd (import_with_fallback example_env folder n) = Inr m' \<and>
       validate_module m' = Inr ()" for folder
    by simp
  have b: "import_module example_env (''igm.modules.'' @ ''process'' @ ''.'' @ ''B'') = Inr mod_B"
    by (simp add: example_defs program_defs)
  have c: "import_module example_env (''igm.modules.'' @ ''postproc'' @ ''.'' @ ''C'') = Inr mod_C"
    by (simp add: example_defs program_defs)
  have k: "import_module example_env (''igm.modules.'' @ ''process'' @ ''.'' @ ''broken'') =
      Inl (OtherException ''SyntaxError'') \<and>
      \<not> is_module_not_found (OtherException ''SyntaxError'')"
    by (simp add: example_defs program_defs)
  have d: "import_module example_env (''igm.modules.'' @ ''preproc'' @ ''.'' @ ''D'') =
      Inl (ModuleNotFoundError ''No module named igm.modules.preproc.D'') \<and>
      import_module example_env ''D'' = Inr mod_D_cwd"
    by (simp add: example_defs program_defs)
  have n: "import_module example_env (''igm.modules.'' @ ''process'' @ ''.'' @ ''nope'') =
      Inl (ModuleNotFoundError ''No module named igm.modules.process.nope'') \<and>
      import_module example_env ''nope'' = Inl (ModuleNotFoundError ''No module named nope'')"
    by (simp add: example_defs program_defs)
  have e: "import_module example_env (''igm.modules.'' @ ''process'' @ ''.'' @ []) =
      Inl (ModuleNotFoundError ''No module named igm.modules.process.'') \<and>
      import_module example_env [] = Inl ValueError \<and> \<not> is_module_not_found ValueError"
    by (simp add: example_defs program_defs)
  from resolution_framework_then_working_directory 
         [where before="[]" and env=example_env and folder="''process''" and name="''B''"
            and m=mod_B, OF none] b
  have 1: "import_with_fallback example_env ''process'' ''B'' = ([], Inr mod_B)"
    by blast
  from resolution_framework_then_working_directory 
         [where before="[]" and env=example_env and folder="''postproc''" and name="''C''"
            and m=mod_C, OF none] c
  have 2: "import_with_fallback example_env ''postproc'' ''C'' = ([], Inr mod_C)"
    by blast
  from resolution_framework_then_working_directory
         [where before="[]" and env=example_env and folder="''process''"
            and name="''broken''" and e="OtherException ''SyntaxError''", OF none] k
  have 3: "import_with_fallback example_env ''process'' ''broken'' =
     ([], Inl (OtherException ''SyntaxError''))"
    by blast
  from resolution_framework_then_working_directory
         [where before="[]" and env=example_env and folder="''preproc''" and name="''D''"
            and m=mod_D_cwd and msg="''No module named igm.modules.preproc.D''", OF none] d
  have 4: "import_with_fallback example_env ''preproc'' ''D'' =
         ([''Error importing module: '' @ ''igm.modules.'' @ ''preproc'' @ ''.'' @ ''D'' @
             '', checking for custom package in current working directory.'',
           ''Trying to import custom module from current working directory (folder or .py): ''
             @ ''D''], Inr mod_D_cwd)"
    by blast
  from resolution_framework_then_working_directory
         [where before="[''B'', ''G'']" and env=example_env and folder="''process''"
            and name="''nope''" and msg="''No module named igm.modules.process.nope''"
            and msg'="''No module named nope''" and after="[''X'']", OF before] n
  have 5: "snd (load_modules_from_directory example_env
              ([''B'', ''G''] @ ''nope'' # [''X'']) ''process'') =
         Inl (ModuleNotFoundError
               (''Can not find module '' @ ''nope'' @ ''. Make sure it is either in the 1) ''
                @ igm_parent example_env @ ''/modules/'' @ ''process''
                @ '' directory or 2) in your current working directory.''))"
    by blast
  from resolution_framework_then_working_directory
         [where before="[''B'', ''G'']" and env=example_env and folder="''process''"
            and name="[]" and e=ValueError and msg="''No module named igm.modules.process.''"
            and after="[''X'']", OF before] e
  have 6: "snd (load_modules_from_directory example_env
              ([''B'', ''G''] @ [] # [''X'']) ''process'') = Inl ValueError"
    by blast
  have g: "igm_parent example_env = ''/opt/igm''"
    by (simp add: example_env_def)
  from 1 2 3 4 5 6 show ?thesis unfolding g by simp
qed

text \<open>
  The claim without the amendment fails on the empty name: the import from the
  framework namespace raises \<open>ModuleNotFoundError\<close>, the import from the working directory
  raises \<open>ValueError\<close>, so both lookups fail, and resolution fails with the \<open>ValueError\<close>
  and not with a \<open>ModuleNotFoundError\<close>.
\<close>

theorem resolution_empty_name_counterexample:
  "import_module example_env (module_path ''preproc'' []) =
     Inl (ModuleNotFoundError ''No module named igm.modules.preproc.'') \<and>
   import_module example_env [] = Inl ValueError \<and>
   snd (load_modules_from_directory example_env [[]] ''preproc'') = Inl ValueError"
  by (simp add: example_defs program_defs)

text \<open>
  Claim C1. When \<open>modules_dict\<close> holds the three lists of names and every name resolves
  to a module that passes validation, \<open>load_modules\<close> returns the concatenation of
  what \<open>load_modules_from_directory\<close> returns for \<open>preproc\<close>, for \<open>process\<close> and for
  \<open>postproc\<close>, in this order; and each of these three lists holds, position by position,
  the modules that its names resolve to.
\<close>

theorem load_modules_concatenates_in_order:
  assumes "modules_dict ''modules_preproc'' = Some names_preproc"
    and "modules_dict ''modules_process'' = Some names_process"
    and "modules_dict ''modules_postproc'' = Some names_postproc"
    and "\<forall>n \<in> set names_preproc.
      \<exists>m. snd (import_with_fallback env ''preproc'' n) = Inr m \<and> validate_module m = Inr ()"
    and "\<forall>n \<in> set names_process.
      \<exists>m. snd (import_with_fallback env ''process'' n) = Inr m \<and> validate_module m = Inr ()"
    and "\<forall>n \<in> set names_postproc.
      \<exists>m. snd (import_with_fallback env ''postproc'' n) = Inr m \<and> validate_module m = Inr ()"
  shows "\<exists>a b c.
      snd (load_modules env modules_dict) = Inr (a @ b @ c) \<and>
      snd (load_modules_from_directory env names_preproc ''preproc'') = Inr a \<and>
      snd (load_modules_from_directory env names_process ''process'') = Inr b \<and>
      snd (load_modules_from_directory env names_postproc ''postproc'') = Inr c \<and>
      map (\<lambda>n. snd (import_with_fallback env ''preproc'' n)) names_preproc = map Inr a \<and>
      map (\<lambda>n. snd (import_with_fallback env ''process'' n)) names_process = map Inr b \<and>
      map (\<lambda>n. snd (import_with_fallback env ''postproc'' n)) names_postproc = map Inr c"
proof -
  from load_loop_total [OF assms(4), of "[]"] obtain a where
    a: "snd (load_modules_from_directory env names_preproc ''preproc'') = Inr a"
    by (auto simp: load_modules_from_directory_def)
  from load_loop_total [OF assms(5), of "[]"] obtain b where
    b: "snd (load_modules_from_directory env names_process ''process'') = Inr b"
    by (auto simp: load_modules_from_directory_def)
  from load_loop_total [OF assms(6), of "[]"] obtain c where
    c: "snd (load_modules_from_directory env names_postproc ''postproc'') = Inr c"
    by (auto simp: load_modules_from_directory_def)
  from a load_loop_Inr [of env "''preproc''" names_preproc "[]" a]
  have ma: "map (\<lambda>n. snd (import_with_fallback env ''preproc'' n)) names_preproc = map Inr a"
    by (auto simp: load_modules_from_directory_def)
  from b load_loop_Inr [of env "''process''" names_process "[]" b]
  have mb: "map (\<lambda>n. snd (import_with_fallback env ''process'' n)) names_process = map Inr b"
    by (auto simp: load_modules_from_directory_def)
  from c load_loop_Inr [of env "''postproc''" names_postproc "[]" c]
  have mc: "map (\<lambda>n. snd (import_with_fallback env ''postproc'' n)) names_postproc = map Inr c"
    by (auto simp: load_modules_from_directory_def)
  have "snd (load_modules env modules_dict) = Inr (a @ b @ c)"
    by (simp add: load_modules_def snd_bind_logged dict_get_def assms(1-3) a b c)
  with a b c ma mb mc show ?thesis by blast
qed

theorem load_modules_concatenates_in_order_witness:
  "snd (load_modules example_env example_modules_dict) =
     Inr ([mod_A, mod_D_cwd] @ [mod_B, mod_G] @ [mod_C])"
proof -
  have d: "example_modules_dict ''modules_preproc'' = Some [''A'', ''D'']"
    "example_modules_dict ''modules_process'' = Some [''B'', ''G'']"
    "example_modules_dict ''modules_postproc'' = Some [''C'']"
    by (simp_all add: example_modules_dict_def)
  have r: "\<forall>n \<in> set [''A'', ''D'']. \<exists>m.
      snd (import_with_fallback example_env ''preproc'' n) = Inr m \<and> validate_module m = Inr ()"
    "\<forall>n \<in> set [''B'', ''G'']. \<exists>m.
      snd (import_with_fallback example_env ''process'' n) = Inr m \<and> validate_module m = Inr ()"
    "\<forall>n \<in> set [''C'']. \<exists>m.
      snd (import_with_fallback example_env ''postproc'' n) = Inr m \<and> validate_module m = Inr ()"
    by (simp_all add: example_defs program_defs)
  from load_modules_concatenates_in_order [OF d r] obtain a b c where
    l: "snd (load_modules example_env example_modules_dict) = Inr (a @ b @ c)" and
    a: "map (\<lambda>n. snd (import_with_fallback example_env ''preproc'' n)) [''A'', ''D''] = map Inr a" and
    b: "map (\<lambda>n. snd (import_with_fallback example_env ''process'' n)) [''B'', ''G''] = map Inr b" and
    c: "map (\<lambda>n. snd (import_with_fallback example_env ''postproc'' n)) [''C''] = map Inr c"
    by blast
  have "map Inr a = map (Inr :: module \<Rightarrow> error + module) [mod_A, mod_D_cwd]"
    unfolding a [symmetric] by (simp add: example_defs program_defs)
  then have a': "a = [mod_A, mod_D_cwd]" by (auto simp: map_eq_Cons_conv)
  have "map Inr b = map (Inr :: module \<Rightarrow> error + module) [mod_B, mod_G]"
    unfolding b [symmetric] by (simp add: example_defs program_defs)
  then have b': "b = [mod_B, mod_G]" by (auto simp: map_eq_Cons_conv)
  have "map Inr c = map (Inr :: module \<Rightarrow> error + module) [mod_C]"
    unfolding c [symmetric] by (simp add: example_defs program_defs)
  then have c': "c = [mod_C]" by (auto simp: map_eq_Cons_conv)
  from l show ?thesis unfolding a' b' c' .
qed


section \<open>Dependency expansion\<close>

lemma set_add_set: "set (set_add x s) = insert x (set s)"
  by (auto simp: set_add_def)

lemma set_add_distinct: "distinct s \<Longrightarrow> distinct (set_add x s)"
  by (simp add: set_add_def)

text \<open>One run of the inner loop adds at most one module to the set.\<close>

lemma search_directories_Inr:
  "snd (search_directories env deps dirs s) = Inr s' \<Longrightarrow> s' = s \<or> (\<exists>x. s' = set_add x s)"
proof (induction dirs)
  case Nil
  then show ?case by simp
next
  case (Cons directory dirs)
  then show ?case
    by (auto split: prod.splits sum.splits list.splits if_splits)
qed

lemma search_directories_grows:
  assumes "snd (search_directories env deps dirs s) = Inr s'"
  shows "set s \<subseteq> set s' \<and> (distinct s \<longrightarrow> distinct s')"
  using search_directories_Inr [OF assms] by (auto simp: set_add_set set_add_distinct)

lemma dependencies_loop_grows:
  "snd (dependencies_loop env mods s) = Inr s' \<Longrightarrow>
   set s \<subseteq> set s' \<and> (distinct s \<longrightarrow> distinct s')"
proof (induction mods arbitrary: s)
  case Nil
  then show ?case by simp
next
  case (Cons m mods)
  show ?case
  proof (cases "dependencies m")
    case None
    with Cons.prems have "snd (dependencies_loop env mods s) = Inr s'"
      by (simp add: has_dependencies_def hasattr_def)
    then show ?thesis by (rule Cons.IH)
  next
    case (Some deps)
    with Cons.prems obtain s1 where
      s1: "snd (search_directories env deps directories_to_search s) = Inr s1" and
      rest: "snd (dependencies_loop env mods s1) = Inr s'"
      by (auto simp: has_dependencies_def hasattr_def snd_bind_logged split: sum.splits)
    from search_directories_grows [OF s1] Cons.IH [OF rest] show ?thesis by blast
  qed
qed

lemma add_dependencies_Inr:
  assumes "snd (add_dependencies env mods) = Inr res"
  shows "\<exists>deps. snd (dependencies_loop env mods []) = Inr deps \<and>
           res = mods @ list_of_set env deps \<and> distinct deps"
proof -
  from assms obtain deps where
    d: "snd (dependencies_loop env mods []) = Inr deps" and r: "res = mods @ list_of_set env deps"
    by (auto simp: add_dependencies_def snd_bind_logged split: sum.splits)
  from dependencies_loop_grows [OF d] have "distinct deps" by simp
  with d r show ?thesis by blast
qed

text \<open>
  Claim C10. Whenever \<open>add_dependencies\<close> returns a list, the list is the input list
  followed by further modules: its first \<open>len(imported_modules)\<close> elements are the
  input modules in their order.
\<close>

theorem add_dependencies_input_is_prefix:
  "snd (add_dependencies env imported_modules) = Inr result \<Longrightarrow>
   take (length imported_modules) result = imported_modules \<and>
   (\<exists>appended. result = imported_modules @ appended)"
proof -
  assume "snd (add_dependencies env imported_modules) = Inr result"
  from add_dependencies_Inr [OF this] obtain deps where
    "result = imported_modules @ list_of_set env deps" by blast
  then show ?thesis by simp
qed

theorem add_dependencies_input_is_prefix_witness:
  "snd (add_dependencies example_env [mod_A, mod_B, mod_C]) =
     Inr [mod_A, mod_B, mod_C, mod_D_cwd] \<and>
   take (length [mod_A, mod_B, mod_C]) [mod_A, mod_B, mod_C, mod_D_cwd] =
     [mod_A, mod_B, mod_C]"
proof -
  have r: "snd (add_dependencies example_env [mod_A, mod_B, mod_C]) =
     Inr [mod_A, mod_B, mod_C, mod_D_cwd]"
    by (simp add: example_defs program_defs)
  from add_dependencies_input_is_prefix [OF r] r show ?thesis by blast
qed

lemma validate_module_error:
  "validate_module m = Inl e \<Longrightarrow> \<not> is_module_not_found e"
  by (auto simp: validate_module_def dest: check_functions_Inl)

text \<open>Loading a list of one name from one directory.\<close>

lemma load_single:
  "snd (load_modules_from_directory env [d] directory) =
     (case snd (import_with_fallback env directory d) of
        Inl e \<Rightarrow> Inl e
      | Inr m \<Rightarrow> (case validate_module m of Inl e \<Rightarrow> Inl e | Inr u \<Rightarrow> Inr [m]))"
  by (simp add: load_modules_from_directory_def snd_bind_logged split: sum.splits)

lemma import_with_fallback_snd:
  "snd (import_with_fallback env directory d) =
     (case first_found env [module_path directory d, d] of
        Inl e \<Rightarrow> Inl e
      | Inr None \<Rightarrow> Inl (ModuleNotFoundError (not_found_message env directory d))
      | Inr (Some m) \<Rightarrow> Inr m)"
  by (simp add: import_with_fallback_def split: sum.splits)

lemma first_found_error: "first_found env paths = Inl e \<Longrightarrow> \<not> is_module_not_found e"
  by (induction paths) (auto split: sum.splits if_splits)

lemma snd_search_directories_step:
  "snd (search_directories env deps (directory # rest) s) =
     (case snd (load_modules_from_directory env deps directory) of
        Inl e \<Rightarrow>
          if is_module_not_found e then snd (search_directories env deps rest s) else Inl e
      | Inr loaded \<Rightarrow> (case loaded of [] \<Rightarrow> Inl IndexError | m # ms \<Rightarrow> Inr (set_add m s)))"
  by (cases "load_modules_from_directory env deps directory";
      cases "search_directories env deps rest s")
     (auto split: sum.splits list.splits)

text \<open>
  One step of the inner loop for a list of one name: a module found in the directory or
  in the working directory is validated and added; when neither has the name the next
  directory is tried; an exception other than \<open>ModuleNotFoundError\<close> ends the loop.
\<close>

lemma search_single_step:
  "snd (search_directories env [d] (directory # rest) s) =
     (case first_found env [module_path directory d, d] of
        Inl e \<Rightarrow> Inl e
      | Inr None \<Rightarrow> snd (search_directories env [d] rest s)
      | Inr (Some x) \<Rightarrow>
          (case validate_module x of Inl e \<Rightarrow> Inl e | Inr u \<Rightarrow> Inr (set_add x s)))"
proof (cases "first_found env [module_path directory d, d]")
  case (Inl e)
  then have "snd (load_modules_from_directory env [d] directory) = Inl e"
    by (simp add: load_single import_with_fallback_snd)
  with Inl first_found_error [OF Inl] show ?thesis
    by (simp add: snd_search_directories_step del: search_directories.simps first_found.simps)
next
  case (Inr found)
  show ?thesis
  proof (cases found)
    case None
    with Inr have "snd (load_modules_from_directory env [d] directory) =
        Inl (ModuleNotFoundError (not_found_message env directory d))"
      by (simp add: load_single import_with_fallback_snd)
    with Inr None show ?thesis
      by (simp add: snd_search_directories_step del: search_directories.simps first_found.simps)
  next
    case (Some x)
    with Inr have i: "snd (import_with_fallback env directory d) = Inr x"
      by (simp add: import_with_fallback_snd)
    show ?thesis
    proof (cases "validate_module x")
      case (Inl e)
      with i have "snd (load_modules_from_directory env [d] directory) = Inl e"
        by (simp add: load_single)
      with Inr Some Inl validate_module_error [OF Inl] show ?thesis
        by (simp add: snd_search_directories_step
            del: search_directories.simps first_found.simps)
    next
      case (Inr u)
      with i have "snd (load_modules_from_directory env [d] directory) = Inr [x]"
        by (simp add: load_single)
      with \<open>first_found env [module_path directory d, d] = Inr found\<close> Some Inr
      show ?thesis
        by (simp add: snd_search_directories_step
            del: search_directories.simps first_found.simps)
    qed
  qed
qed

text \<open>
  The whole inner loop for a list of one name. The working directory is tried after
  every framework directory; since it has been tried after \<open>preproc\<close> already, the
  later tries find nothing new.
\<close>

lemma search_single:
  "snd (search_directories env [d] directories_to_search s) =
     (case first_found env (dependency_locations d) of
        Inl e \<Rightarrow> Inl e
      | Inr None \<Rightarrow> Inr s
      | Inr (Some x) \<Rightarrow>
          (case validate_module x of Inl e \<Rightarrow> Inl e | Inr u \<Rightarrow> Inr (set_add x s)))"
  unfolding directories_to_search_def dependency_locations_def search_single_step
  by (simp split: sum.splits option.splits)

lemma first_found_none:
  "first_found env paths = Inr None \<Longrightarrow> p \<in> set paths \<Longrightarrow>
   \<exists>e. import_module env p = Inl e \<and> is_module_not_found e"
  by (induction paths) (auto split: sum.splits if_splits)

lemma search_single_log:
  assumes "first_found env (dependency_locations d) = Inr None"
  shows "set (map info_could_not_find directories_to_search) \<subseteq>
         set (fst (search_directories env [d] directories_to_search s))"
proof -
  have l: "\<exists>e. load_modules_from_directory env [d] directory =
       ([info_error_importing (module_path directory d), info_trying_custom d], Inl e) \<and>
       is_module_not_found e"
    if "directory \<in> set directories_to_search" for directory
  proof -
    from that have "module_path directory d \<in> set (dependency_locations d)"
      "d \<in> set (dependency_locations d)"
      by (auto simp: directories_to_search_def dependency_locations_def)
    with first_found_none [OF assms] obtain e e' where
      "import_module env (module_path directory d) = Inl e" "is_module_not_found e"
      "import_module env d = Inl e'" "is_module_not_found e'"
      by blast
    then show ?thesis
      by (simp add: load_modules_from_directory_def bind_logged_def import_with_fallback_def)
  qed
  from l [of "''preproc''"] l [of "''process''"] l [of "''postproc''"]
  show ?thesis
    by (auto simp: directories_to_search_def)
qed

lemma dependencies_loop_Cons_single:
  assumes "dependencies m = Some [d]"
  shows "snd (dependencies_loop env (m # mods) s) =
     (case first_found env (dependency_locations d) of
        Inl e \<Rightarrow> Inl e
      | Inr None \<Rightarrow> snd (dependencies_loop env mods s)
      | Inr (Some x) \<Rightarrow> (case validate_module x of
           Inl e \<Rightarrow> Inl e
         | Inr u \<Rightarrow> snd (dependencies_loop env mods (set_add x s))))"
  using assms
  by (simp add: has_dependencies_def hasattr_def snd_bind_logged search_single
      split: option.splits sum.splits)

lemma dependencies_loop_single_member:
  "m \<in> set mods \<Longrightarrow> dependencies m = Some [d] \<Longrightarrow>
   first_found env (dependency_locations d) = Inr (Some x) \<Longrightarrow>
   snd (dependencies_loop env mods s) = Inr s' \<Longrightarrow> x \<in> set s'"
proof (induction mods arbitrary: s)
  case Nil
  then show ?case by simp
next
  case (Cons m' mods)
  show ?case
  proof (cases "m = m'")
    case True
    with Cons.prems(2-4) have "snd (dependencies_loop env mods (set_add x s)) = Inr s'"
      by (simp add: dependencies_loop_Cons_single del: dependencies_loop.simps(2)
          split: sum.splits)
    from dependencies_loop_grows [OF this] show ?thesis by (auto simp: set_add_set)
  next
    case False
    with Cons.prems(1) have m: "m \<in> set mods" by simp
    show ?thesis
    proof (cases "dependencies m'")
      case None
      with Cons.prems(4) have "snd (dependencies_loop env mods s) = Inr s'"
        by (simp add: has_dependencies_def hasattr_def)
      from Cons.IH [OF m Cons.prems(2,3) this] show ?thesis .
    next
      case (Some deps)
      with Cons.prems(4) obtain s1 where
        "snd (dependencies_loop env mods s1) = Inr s'"
        by (auto simp: has_dependencies_def hasattr_def snd_bind_logged split: sum.splits)
      from Cons.IH [OF m Cons.prems(2,3) this] show ?thesis .
    qed
  qed
qed

lemma set_list_of_set: "set (list_of_set env s) = set s"
  by (simp add: list_of_set_def)

lemma distinct_list_of_set: "distinct (list_of_set env s) = distinct s"
  by (simp add: list_of_set_def)

lemma count_list_of_set: "count_list (list_of_set env s) x = count_list s x"
proof -
  have "count (mset (list_of_set env s)) x = count (mset s) x"
    by (simp add: list_of_set_def)
  then show ?thesis by (simp only: count_mset)
qed

lemma count_list_distinct_member: "distinct s \<Longrightarrow> x \<in> set s \<Longrightarrow> count_list s x = 1"
  by (induction s) auto

text \<open>
  Claim C3, as amended. For a module that declares the one dependency name \<open>d\<close>, the
  name is looked up in the \<open>preproc\<close> namespace, then in the working directory, then in
  the \<open>process\<close> namespace, then in the \<open>postproc\<close> namespace, and the first location
  that has it wins: expanding the list of this module alone returns the module and the
  module found first (or the validation error of that module, or the module alone when
  no location has the name, or the exception other than \<open>ModuleNotFoundError\<close> that an
  import raised before a module was found); and in the expansion of any list that
  contains the module, the module found first is among the appended dependencies.
\<close>

theorem dependency_found_first_wins:
  assumes "dependencies m = Some [d]"
  shows "snd (add_dependencies env [m]) =
           (case first_found env (dependency_locations d) of
              Inl e \<Rightarrow> Inl e
            | Inr None \<Rightarrow> Inr [m]
            | Inr (Some x) \<Rightarrow>
                (case validate_module x of Inl e \<Rightarrow> Inl e | Inr u \<Rightarrow> Inr [m, x])) \<and>
         (\<forall>mods res x. m \<in> set mods \<and> snd (add_dependencies env mods) = Inr res \<and>
            first_found env (dependency_locations d) = Inr (Some x) \<longrightarrow>
            x \<in> set (drop (length mods) res))"
proof -
  have a: "snd (add_dependencies env [m]) =
           (case first_found env (dependency_locations d) of
              Inl e \<Rightarrow> Inl e
            | Inr None \<Rightarrow> Inr [m]
            | Inr (Some x) \<Rightarrow>
                (case validate_module x of Inl e \<Rightarrow> Inl e | Inr u \<Rightarrow> Inr [m, x]))"
    by (simp add: add_dependencies_def snd_bind_logged dependencies_loop_Cons_single [OF assms]
        list_of_set_def set_add_def del: dependencies_loop.simps(2)
        split: option.splits sum.splits)
  have b: "\<forall>mods res x. m \<in> set mods \<and> snd (add_dependencies env mods) = Inr res \<and>
            first_found env (dependency_locations d) = Inr (Some x) \<longrightarrow>
            x \<in> set (drop (length mods) res)"
  proof (intro allI impI)
    fix mods res x
    assume h: "m \<in> set mods \<and> snd (add_dependencies env mods) = Inr res \<and>
            first_found env (dependency_locations d) = Inr (Some x)"
    then obtain deps where
      d: "snd (dependencies_loop env mods []) = Inr deps" and
      r: "res = mods @ list_of_set env deps"
      using add_dependencies_Inr by blast
    from h assms d have "x \<in> set deps" by (blast intro: dependencies_loop_single_member)
    with r show "x \<in> set (drop (length mods) res)" by (simp add: set_list_of_set)
  qed
  from a b show ?thesis by blast
qed

theorem dependency_found_first_wins_witness:
  "snd (add_dependencies example_env [mod_B]) = Inr [mod_B, mod_D_cwd] \<and>
   mod_D_cwd \<in> set (drop (length [mod_A, mod_B]) [mod_A, mod_B, mod_D_cwd])"
proof -
  have d: "dependencies mod_B = Some [''D'']"
    by (simp add: example_defs)
  have f: "first_found example_env (dependency_locations ''D'') = Inr (Some mod_D_cwd)"
    by (simp add: example_defs dependency_locations_def module_path_def import_module_def)
  have v: "validate_module mod_D_cwd = Inr ()"
    by (simp add: example_defs program_defs)
  have r: "snd (add_dependencies example_env [mod_A, mod_B]) = Inr [mod_A, mod_B, mod_D_cwd]"
    by (simp add: example_defs program_defs)
  from dependency_found_first_wins [OF d, of example_env] f v
  have 1: "snd (add_dependencies example_env [mod_B]) = Inr [mod_B, mod_D_cwd]"
    by simp
  from dependency_found_first_wins [OF d, of example_env] f r
  have 2: "mod_D_cwd \<in> set (drop (length [mod_A, mod_B]) [mod_A, mod_B, mod_D_cwd])"
    by (meson list.set_intros(1,2))
  from 1 2 show ?thesis by blast
qed

text \<open>
  The order of the specification (the three framework namespaces, then the working
  directory) fails on the dependency \<open>D\<close> of the module \<open>B\<close>: the \<open>process\<close> namespace has
  a module \<open>D\<close>, which that order finds, and the code takes the module \<open>D\<close> of the working
  directory.
\<close>

theorem dependency_search_order_counterexample:
  "first_found example_env (spec_dependency_locations ''D'') = Inr (Some mod_D_process) \<and>
   snd (add_dependencies example_env [mod_B]) = Inr [mod_B, mod_D_cwd] \<and>
   mod_D_cwd \<noteq> mod_D_process"
  by (simp add: example_defs program_defs spec_dependency_locations_def)

text \<open>
  Claim C5, as amended. When two distinct modules of the input each declare the one
  dependency name \<open>d\<close> and \<open>d\<close> is found, the part that expansion appends to the input
  contains the dependency module exactly once; the whole list contains it once more
  than the input does, so exactly once when the module is not itself in the input.
\<close>

theorem shared_dependency_appended_once:
  assumes "a \<in> set mods" and "b \<in> set mods" and "a \<noteq> b"
    and "dependencies a = Some [d]" and "dependencies b = Some [d]"
    and "first_found env (dependency_locations d) = Inr (Some x)"
    and "snd (add_dependencies env mods) = Inr res"
  shows "count_list (drop (length mods) res) x = 1 \<and>
         count_list res x = count_list mods x + 1"
proof -
  from add_dependencies_Inr [OF assms(7)] obtain deps where
    d: "snd (dependencies_loop env mods []) = Inr deps" and
    r: "res = mods @ list_of_set env deps" and
    dist: "distinct deps" by blast
  from dependencies_loop_single_member [OF assms(1) assms(4) assms(6) d]
  have "x \<in> set deps" .
  with dist have "count_list deps x = 1" by (rule count_list_distinct_member)
  then have "count_list (list_of_set env deps) x = 1" by (simp only: count_list_of_set)
  with r show ?thesis by simp
qed

theorem shared_dependency_appended_once_witness:
  "snd (add_dependencies example_env [mod_B, mod_C]) = Inr [mod_B, mod_C, mod_D_cwd] \<and>
   count_list [mod_B, mod_C, mod_D_cwd] mod_D_cwd = count_list [mod_B, mod_C] mod_D_cwd + 1 \<and>
   count_list [mod_B, mod_C] mod_D_cwd = 0"
proof -
  have m: "mod_B \<in> set [mod_B, mod_C]" "mod_C \<in> set [mod_B, mod_C]" by simp_all
  have n: "mod_B \<noteq> mod_C" by (simp add: example_defs)
  have d: "dependencies mod_B = Some [''D'']" "dependencies mod_C = Some [''D'']"
    by (simp_all add: example_defs)
  have f: "first_found example_env (dependency_locations ''D'') = Inr (Some mod_D_cwd)"
    by (simp add: example_defs dependency_locations_def module_path_def import_module_def)
  have r: "snd (add_dependencies example_env [mod_B, mod_C]) = Inr [mod_B, mod_C, mod_D_cwd]"
    by (simp add: example_defs program_defs)
  have z: "count_list [mod_B, mod_C] mod_D_cwd = 0"
    by (simp add: example_defs)
  from shared_dependency_appended_once [OF m n d f r] r z show ?thesis by blast
qed

text \<open>
  The claim without the amendment fails when the dependency is itself in the input:
  \<open>B\<close> and \<open>C\<close> declare \<open>D\<close>, the input lists the module \<open>D\<close> of the working directory
  as well, and the result contains that module twice.
\<close>

theorem shared_dependency_twice_counterexample:
  "dependencies mod_B = Some [''D''] \<and> dependencies mod_C = Some [''D''] \<and>
   mod_B \<noteq> mod_C \<and>
   snd (add_dependencies example_env [mod_B, mod_C, mod_D_cwd]) =
     Inr [mod_B, mod_C, mod_D_cwd, mod_D_cwd] \<and>
   count_list [mod_B, mod_C, mod_D_cwd, mod_D_cwd] mod_D_cwd = 2"
  by (simp add: example_defs program_defs)

lemma fst_search_directories_Inr:
  "snd (dependencies_loop env (m # mods) s) = Inr s' \<Longrightarrow> dependencies m = Some [d] \<Longrightarrow>
   set (fst (search_directories env [d] directories_to_search s))
     \<subseteq> set (fst (dependencies_loop env (m # mods) s))"
  by (auto simp: has_dependencies_def hasattr_def snd_bind_logged fst_bind_logged
      split: sum.splits)

lemma fst_dependencies_loop_rest:
  "snd (dependencies_loop env (m # mods) s) = Inr s' \<Longrightarrow>
   \<exists>s1. snd (dependencies_loop env mods s1) = Inr s' \<and>
     set (fst (dependencies_loop env mods s1)) \<subseteq> set (fst (dependencies_loop env (m # mods) s))"
  by (cases "dependencies m")
     (auto simp: has_dependencies_def hasattr_def snd_bind_logged fst_bind_logged
      split: sum.splits)

text \<open>
  A single dependency that no location has leaves, in a run of the outer loop that
  returns, the three messages of the failed searches in the log.
\<close>

lemma dependencies_loop_log:
  "m \<in> set mods \<Longrightarrow> dependencies m = Some [d] \<Longrightarrow>
   first_found env (dependency_locations d) = Inr None \<Longrightarrow>
   snd (dependencies_loop env mods s) = Inr s' \<Longrightarrow>
   set (map info_could_not_find directories_to_search)
     \<subseteq> set (fst (dependencies_loop env mods s))"
proof (induction mods arbitrary: s)
  case Nil
  then show ?case by simp
next
  case (Cons m' mods)
  show ?case
  proof (cases "m = m'")
    case True
    with Cons.prems(2,4) have
      "set (fst (search_directories env [d] directories_to_search s))
         \<subseteq> set (fst (dependencies_loop env (m' # mods) s))"
      by (blast intro: fst_search_directories_Inr [THEN subsetD])
    with search_single_log [OF Cons.prems(3), of s] show ?thesis by blast
  next
    case False
    with Cons.prems(1) have m: "m \<in> set mods" by simp
    from fst_dependencies_loop_rest [OF Cons.prems(4)] obtain s1 where
      s1: "snd (dependencies_loop env mods s1) = Inr s'" and
      sub: "set (fst (dependencies_loop env mods s1))
              \<subseteq> set (fst (dependencies_loop env (m' # mods) s))" by blast
    from Cons.IH [OF m Cons.prems(2,3) s1] sub show ?thesis by blast
  qed
qed

text \<open>
  When every declared list of dependencies has one name, and the search for every such
  name ends without a module or with a module that passes validation, the outer loop
  returns, and the set it returns holds the modules found for the declared names and
  nothing else.
\<close>

lemma dependencies_loop_singles:
  assumes "\<forall>m \<in> set mods. \<forall>deps. dependencies m = Some deps \<longrightarrow> (\<exists>d. deps = [d])"
    and "\<forall>m \<in> set mods. \<forall>d. dependencies m = Some [d] \<longrightarrow>
           first_found env (dependency_locations d) = Inr None \<or>
           (\<exists>x. first_found env (dependency_locations d) = Inr (Some x) \<and>
                validate_module x = Inr ())"
  shows "\<exists>s'. snd (dependencies_loop env mods s) = Inr s' \<and>
           set s' = set s \<union> {x. \<exists>m \<in> set mods. \<exists>d. dependencies m = Some [d] \<and>
                                  first_found env (dependency_locations d) = Inr (Some x)}"
  using assms
proof (induction mods arbitrary: s)
  case Nil
  then show ?case by simp
next
  case (Cons m mods)
  let ?found = "\<lambda>ms. {x. \<exists>m \<in> set ms. \<exists>d. dependencies m = Some [d] \<and>
                                  first_found env (dependency_locations d) = Inr (Some x)}"
  from Cons.prems(1)
  have p1: "\<forall>m \<in> set mods. \<forall>deps. dependencies m = Some deps \<longrightarrow> (\<exists>d. deps = [d])"
    by simp
  from Cons.prems(2)
  have p2: "\<forall>m \<in> set mods. \<forall>d. dependencies m = Some [d] \<longrightarrow>
           first_found env (dependency_locations d) = Inr None \<or>
           (\<exists>x. first_found env (dependency_locations d) = Inr (Some x) \<and>
                validate_module x = Inr ())"
    by simp
  have IH: "\<And>s. \<exists>s'. snd (dependencies_loop env mods s) = Inr s' \<and>
           set s' = set s \<union> ?found mods"
    by (rule Cons.IH [OF p1 p2])
  show ?case
  proof (cases "dependencies m")
    case None
    then have "snd (dependencies_loop env (m # mods) s) = snd (dependencies_loop env mods s)"
      by (simp add: has_dependencies_def hasattr_def)
    moreover from None have "?found (m # mods) = ?found mods" by auto
    ultimately show ?thesis using IH [of s] by simp
  next
    case (Some deps)
    with Cons.prems(1) obtain d where d: "dependencies m = Some [d]" by auto
    with Cons.prems(2) have
      "first_found env (dependency_locations d) = Inr None \<or>
       (\<exists>x. first_found env (dependency_locations d) = Inr (Some x) \<and>
            validate_module x = Inr ())"
      by simp
    then show ?thesis
    proof
      assume n: "first_found env (dependency_locations d) = Inr None"
      with d have "snd (dependencies_loop env (m # mods) s) = snd (dependencies_loop env mods s)"
        by (simp add: dependencies_loop_Cons_single del: dependencies_loop.simps(2))
      moreover from n d have "?found (m # mods) = ?found mods" by auto
      ultimately show ?thesis using IH [of s] by simp
    next
      assume "\<exists>x. first_found env (dependency_locations d) = Inr (Some x) \<and>
            validate_module x = Inr ()"
      then obtain x where x: "first_found env (dependency_locations d) = Inr (Some x)"
        and v: "validate_module x = Inr ()" by blast
      with d have "snd (dependencies_loop env (m # mods) s) =
          snd (dependencies_loop env mods (set_add x s))"
        by (simp add: dependencies_loop_Cons_single del: dependencies_loop.simps(2))
      moreover from x d have "?found (m # mods) = insert x (?found mods)" by auto
      ultimately show ?thesis using IH [of "set_add x s"] by (auto simp: set_add_set)
    qed
  qed
qed

text \<open>
  Claim C4, as amended. When every module that declares dependencies declares exactly
  one name, and for every such name the imports raise no exception other than
  \<open>ModuleNotFoundError\<close> before a module is found and the module found passes
  validation, expansion returns normally: the result is the input list followed by the
  modules found for the declared names, each once and no others. A declared name that
  no location has raises no error: the message of the failed search is logged for each
  of the three directories, and nothing is appended for that name.
\<close>

theorem add_dependencies_appends_found:
  assumes "\<forall>m \<in> set mods. \<forall>deps. dependencies m = Some deps \<longrightarrow> (\<exists>d. deps = [d])"
    and "\<forall>m \<in> set mods. \<forall>d. dependencies m = Some [d] \<longrightarrow>
           first_found env (dependency_locations d) = Inr None \<or>
           (\<exists>x. first_found env (dependency_locations d) = Inr (Some x) \<and>
                validate_module x = Inr ())"
  shows "\<exists>appended.
           snd (add_dependencies env mods) = Inr (mods @ appended) \<and>
           distinct appended \<and>
           set appended = {x. \<exists>m \<in> set mods. \<exists>d. dependencies m = Some [d] \<and>
                                first_found env (dependency_locations d) = Inr (Some x)} \<and>
           (\<forall>m \<in> set mods. \<forall>d. dependencies m = Some [d] \<and>
                first_found env (dependency_locations d) = Inr None \<longrightarrow>
                set [''Could not find dependencies in directory preproc or current working directory. Checking next IGM directory.'',
                     ''Could not find dependencies in directory process or current working directory. Checking next IGM directory.'',
                     ''Could not find dependencies in directory postproc or current working directory. Checking next IGM directory.'']
                  \<subseteq> set (fst (add_dependencies env mods)))"
proof -
  from dependencies_loop_singles [OF assms, of "[]"] obtain deps where
    d: "snd (dependencies_loop env mods []) = Inr deps" and
    s: "set deps = {x. \<exists>m \<in> set mods. \<exists>d. dependencies m = Some [d] \<and>
                                first_found env (dependency_locations d) = Inr (Some x)}"
    by auto
  from dependencies_loop_grows [OF d] have dist: "distinct deps" by simp
  have r: "snd (add_dependencies env mods) = Inr (mods @ list_of_set env deps)"
    by (simp add: add_dependencies_def snd_bind_logged d)
  have f: "fst (add_dependencies env mods) = fst (dependencies_loop env mods [])"
    by (simp add: add_dependencies_def fst_bind_logged d)
  have t: "set [''Could not find dependencies in directory preproc or current working directory. Checking next IGM directory.'',
                ''Could not find dependencies in directory process or current working directory. Checking next IGM directory.'',
                ''Could not find dependencies in directory postproc or current working directory. Checking next IGM directory.'']
           = set (map info_could_not_find directories_to_search)"
    by (simp add: directories_to_search_def info_could_not_find_def)
  have l: "\<forall>m \<in> set mods. \<forall>d. dependencies m = Some [d] \<and>
                first_found env (dependency_locations d) = Inr None \<longrightarrow>
                set (map info_could_not_find directories_to_search)
                  \<subseteq> set (fst (add_dependencies env mods))"
    unfolding f using dependencies_loop_log [OF _ _ _ d] by blast
  from r dist s l show ?thesis
    unfolding t
    by (intro exI [of _ "list_of_set env deps"])
       (simp add: set_list_of_set distinct_list_of_set)
qed

theorem add_dependencies_appends_found_witness:
  "snd (add_dependencies example_env [mod_X, mod_B, mod_C]) =
     Inr ([mod_X, mod_B, mod_C] @ [mod_D_cwd]) \<and>
   first_found example_env (dependency_locations ''missing'') = Inr None \<and>
   set [''Could not find dependencies in directory preproc or current working directory. Checking next IGM directory.'',
        ''Could not find dependencies in directory process or current working directory. Checking next IGM directory.'',
        ''Could not find dependencies in directory postproc or current working directory. Checking next IGM directory.'']
     \<subseteq> set (fst (add_dependencies example_env [mod_X, mod_B, mod_C]))"
proof -
  have h1: "\<forall>m \<in> set [mod_X, mod_B, mod_C]. \<forall>deps.
      dependencies m = Some deps \<longrightarrow> (\<exists>d. deps = [d])"
    by (simp add: example_defs)
  have h2: "\<forall>m \<in> set [mod_X, mod_B, mod_C]. \<forall>d. dependencies m = Some [d] \<longrightarrow>
           first_found example_env (dependency_locations d) = Inr None \<or>
           (\<exists>x. first_found example_env (dependency_locations d) = Inr (Some x) \<and>
                validate_module x = Inr ())"
    by (simp add: example_defs program_defs dependency_locations_def)
  have x: "dependencies mod_X = Some [''missing'']" by (simp add: example_defs)
  have n: "first_found example_env (dependency_locations ''missing'') = Inr None"
    by (simp add: example_defs dependency_locations_def module_path_def import_module_def)
  from add_dependencies_appends_found [OF h1 h2] x n
  have l: "set [''Could not find dependencies in directory preproc or current working directory. Checking next IGM directory.'',
        ''Could not find dependencies in directory process or current working directory. Checking next IGM directory.'',
        ''Could not find dependencies in directory postproc or current working directory. Checking next IGM directory.'']
      \<subseteq> set (fst (add_dependencies example_env [mod_X, mod_B, mod_C]))"
    by auto
  have r: "snd (add_dependencies example_env [mod_X, mod_B, mod_C]) =
     Inr ([mod_X, mod_B, mod_C] @ [mod_D_cwd])"
    by (simp add: example_defs program_defs)
  from l r n show ?thesis by blast
qed

text \<open>
  The claim without the amendment fails on the module \<open>G\<close>, which declares \<open>A\<close> and \<open>H\<close>:
  both are found in the \<open>preproc\<close> namespace, and only the first is appended. It fails
  on the module \<open>Y\<close>: its dependency \<open>old\<close> is found in the \<open>process\<close> namespace, does not
  pass validation, and expansion raises the \<open>AttributeError\<close>. And it fails on the
  module \<open>E\<close>: its dependency, the empty name, is found in no location, and expansion
  raises the \<open>ValueError\<close> of the import from the working directory.
\<close>

theorem add_dependencies_second_name_counterexample:
  "dependencies mod_G = Some [''A'', ''H''] \<and>
   import_module example_env (module_path ''preproc'' ''A'') = Inr mod_A \<and>
   import_module example_env (module_path ''preproc'' ''H'') = Inr mod_H \<and>
   snd (add_dependencies example_env [mod_G]) = Inr [mod_G, mod_A] \<and>
   mod_H \<notin> set [mod_G, mod_A] \<and>
   dependencies mod_Y = Some [''old''] \<and>
   import_module example_env (module_path ''process'' ''old'') = Inr mod_old \<and>
   snd (add_dependencies example_env [mod_Y]) = Inl (AttributeError mod_old ''params'') \<and>
   dependencies mod_E = Some [[]] \<and>
   snd (add_dependencies example_env [mod_E]) = Inl ValueError"
  by (simp add: example_defs program_defs)

section \<open>Parameter overrides\<close>

lemma map_of_filter_key:
  "map_of (filter (\<lambda>(key, value). P key) items) k = (if P k then map_of items k else None)"
  by (induction items) auto

lemma startswith1_append: "startswith1 s p = (\<exists>post. s = p @ post)"
proof
  assume "startswith1 s p"
  then have "take (length p) s = p" by (simp only: startswith1_take)
  then have "s = p @ drop (length p) s" by (metis append_take_drop_id)
  then show "\<exists>post. s = p @ post" ..
next
  assume "\<exists>post. s = p @ post"
  then show "startswith1 s p" by (auto simp: startswith1_take)
qed

text \<open>\<open>is_substring\<close> holds exactly when the needle occurs somewhere in the text.\<close>

lemma is_substring_iff:
  "is_substring needle hay = (\<exists>pre post. hay = pre @ needle @ post)"
proof (induction hay)
  case Nil
  show ?case by (auto simp: startswith1_append)
next
  case (Cons c cs)
  show ?case
  proof
    assume "is_substring needle (c # cs)"
    then have "startswith1 (c # cs) needle \<or> is_substring needle cs" by simp
    then show "\<exists>pre post. c # cs = pre @ needle @ post"
    proof
      assume "startswith1 (c # cs) needle"
      then obtain post where "c # cs = needle @ post"
        by (auto simp: startswith1_append)
      then have "c # cs = [] @ needle @ post" by simp
      then show ?thesis by blast
    next
      assume "is_substring needle cs"
      with Cons obtain pre post where "cs = pre @ needle @ post" by blast
      then have "c # cs = (c # pre) @ needle @ post" by simp
      then show ?thesis by blast
    qed
  next
    assume "\<exists>pre post. c # cs = pre @ needle @ post"
    then obtain pre post where p: "c # cs = pre @ needle @ post" by blast
    show "is_substring needle (c # cs)"
    proof (cases pre)
      case Nil
      with p have "startswith1 (c # cs) needle"
        by (auto simp: startswith1_append)
      then show ?thesis by simp
    next
      case (Cons a pre')
      with p have "cs = pre' @ needle @ post" by simp
      with Cons.IH have "is_substring needle cs" by blast
      then show ?thesis by simp
    qed
  qed
qed

text \<open>
  Claim C7, as amended. Take a parsed configuration with a \<open>modules_process\<close> entry
  that is a list, a string or an object, and call the entry deprecated when, as a
  list, it has the element \<open>time_step\<close>, as a string, it has \<open>time_step\<close> as a
  substring, as an object, it has the key \<open>time_step\<close>. For a deprecated entry the
  parameter-override step prints the banner and leaves with \<open>sys.exit\<close> and the
  deprecation message; nothing else is printed and no default is set; and the set-up
  of the run ends there, whatever the installation and the lists of module names are:
  no module is resolved. For an entry that is not deprecated the parameter-override
  step returns, and the set-up goes on to resolve the modules. For every parsed
  configuration, the parameter-override step leaves with \<open>sys.exit\<close> only when the
  configuration has a deprecated entry.
\<close>

theorem time_step_in_modules_process_aborts:
  "(subscript dic_params ''modules_process'' = Inr modules_process \<and>
    (modules_process = JArr names \<and> deprecated = (JStr ''time_step'' \<in> set names) \<or>
     modules_process = JStr str \<and>
       deprecated = (\<exists>pre post. str = pre @ ''time_step'' @ post) \<or>
     modules_process = JObj entries \<and> deprecated = (''time_step'' \<in> fst ` set entries)) \<longrightarrow>
      (deprecated \<longrightarrow>
         overide_from_json_file parser dic_params check_if_params_exist =
           (['' ------- CHECK THE WIKI TO CHANGE YOUR PARAM FILE AND USER MODULES -------------''],
            Inl (SystemExit
              ''WARNING: the parameter time_step is deprecated, UPDATE you params.json file'')) \<and>
         (\<forall>env modules_dict.
            run_setup env parser dic_params check_if_params_exist modules_dict =
              (['' ------- CHECK THE WIKI TO CHANGE YOUR PARAM FILE AND USER MODULES -------------''],
               Inl (SystemExit
                 ''WARNING: the parameter time_step is deprecated, UPDATE you params.json file'')))) \<and>
      (\<not> deprecated \<longrightarrow>
         (\<exists>printed parser'.
            overide_from_json_file parser dic_params check_if_params_exist =
              (printed, Inr parser')) \<and>
         (\<forall>env modules_dict.
            snd (run_setup env parser dic_params check_if_params_exist modules_dict) =
            snd (bind_logged (load_modules env modules_dict) (add_dependencies env))))) \<and>
   (snd (overide_from_json_file parser dic_params check_if_params_exist) = Inl (SystemExit msg)
    \<longrightarrow>
      (\<exists>names. subscript dic_params ''modules_process'' = Inr (JArr names) \<and>
         JStr ''time_step'' \<in> set names) \<or>
      (\<exists>str pre post. subscript dic_params ''modules_process'' = Inr (JStr str) \<and>
         str = pre @ ''time_step'' @ post) \<or>
      (\<exists>entries. subscript dic_params ''modules_process'' = Inr (JObj entries) \<and>
         ''time_step'' \<in> fst ` set entries))"
proof (intro conjI impI)
  assume h: "subscript dic_params ''modules_process'' = Inr modules_process \<and>
    (modules_process = JArr names \<and> deprecated = (JStr ''time_step'' \<in> set names) \<or>
     modules_process = JStr str \<and>
       deprecated = (\<exists>pre post. str = pre @ ''time_step'' @ post) \<or>
     modules_process = JObj entries \<and> deprecated = (''time_step'' \<in> fst ` set entries))"
  then have s: "subscript dic_params ''modules_process'' = Inr modules_process" by blast
  from h have p: "py_in ''time_step'' modules_process = Inr deprecated"
    by (auto simp: is_substring_iff)
  {
    assume "deprecated"
    with s p show a: "overide_from_json_file parser dic_params check_if_params_exist =
        (['' ------- CHECK THE WIKI TO CHANGE YOUR PARAM FILE AND USER MODULES -------------''],
         Inl (SystemExit
           ''WARNING: the parameter time_step is deprecated, UPDATE you params.json file''))"
      by (simp add: overide_from_json_file_def deprecation_banner_def deprecation_message_def
          del: subscript.simps py_in.simps)
    then show "\<forall>env modules_dict.
        run_setup env parser dic_params check_if_params_exist modules_dict =
          (['' ------- CHECK THE WIKI TO CHANGE YOUR PARAM FILE AND USER MODULES -------------''],
           Inl (SystemExit
             ''WARNING: the parameter time_step is deprecated, UPDATE you params.json file''))"
      by (simp add: run_setup_def bind_logged_def)
  }
  {
    assume n: "\<not> deprecated"
    from s obtain items where o: "dic_params = JObj items"
      by (cases dic_params) simp_all
    from s p n show b: "\<exists>printed parser'.
        overide_from_json_file parser dic_params check_if_params_exist =
          (printed, Inr parser')"
      unfolding o
      by (simp add: overide_from_json_file_def Let_def del: subscript.simps py_in.simps)
    then show "\<forall>env modules_dict.
        snd (run_setup env parser dic_params check_if_params_exist modules_dict) =
        snd (bind_logged (load_modules env modules_dict) (add_dependencies env))"
      by (auto simp: run_setup_def snd_bind_logged)
  }
next
  assume x: "snd (overide_from_json_file parser dic_params check_if_params_exist) =
      Inl (SystemExit msg)"
  have e1: "subscript dic_params ''modules_process'' \<noteq> Inl (SystemExit msg)"
    by (cases dic_params) (simp_all split: option.splits)
  from x e1 obtain mp where
    s: "subscript dic_params ''modules_process'' = Inr mp"
    by (cases "subscript dic_params ''modules_process''")
       (auto simp: overide_from_json_file_def)
  have e2: "py_in ''time_step'' mp \<noteq> Inl (SystemExit msg)"
    by (cases mp) simp_all
  from s obtain items where o: "dic_params = JObj items"
    by (cases dic_params) simp_all
  from x s e2 have p: "py_in ''time_step'' mp = Inr True"
    unfolding o
    by (cases "py_in ''time_step'' mp")
       (auto simp: overide_from_json_file_def Let_def simp del: subscript.simps py_in.simps
          split: if_splits)
  then show "(\<exists>names. subscript dic_params ''modules_process'' = Inr (JArr names) \<and>
         JStr ''time_step'' \<in> set names) \<or>
      (\<exists>str pre post. subscript dic_params ''modules_process'' = Inr (JStr str) \<and>
         str = pre @ ''time_step'' @ post) \<or>
      (\<exists>entries. subscript dic_params ''modules_process'' = Inr (JObj entries) \<and>
         ''time_step'' \<in> fst ` set entries)"
    unfolding s by (cases mp) (auto simp: is_substring_iff)
qed

theorem time_step_in_modules_process_aborts_witness:
  "run_setup example_env example_parser example_params_deprecated True example_modules_dict =
     (['' ------- CHECK THE WIKI TO CHANGE YOUR PARAM FILE AND USER MODULES -------------''],
      Inl (SystemExit
        ''WARNING: the parameter time_step is deprecated, UPDATE you params.json file'')) \<and>
   (\<exists>printed parser'.
      overide_from_json_file example_parser example_params True = (printed, Inr parser')) \<and>
   (\<exists>printed parser'.
      overide_from_json_file example_parser
        (JObj [(''modules_process'', JStr ''iceflow time'')]) True = (printed, Inr parser')) \<and>
   overide_from_json_file example_parser
     (JObj [(''modules_process'', JObj [(''time_step'', JInt 1)])]) False =
     (['' ------- CHECK THE WIKI TO CHANGE YOUR PARAM FILE AND USER MODULES -------------''],
      Inl (SystemExit
        ''WARNING: the parameter time_step is deprecated, UPDATE you params.json file'')) \<and>
   ((\<exists>names. subscript example_params_string ''modules_process'' = Inr (JArr names) \<and>
         JStr ''time_step'' \<in> set names) \<or>
    (\<exists>str pre post. subscript example_params_string ''modules_process'' = Inr (JStr str) \<and>
         str = pre @ ''time_step'' @ post) \<or>
    (\<exists>entries. subscript example_params_string ''modules_process'' = Inr (JObj entries) \<and>
         ''time_step'' \<in> fst ` set entries))"
proof -
  have s1: "subscript example_params_deprecated ''modules_process'' =
      Inr (JArr [JStr ''iceflow'', JStr ''time_step''])"
    by (simp add: example_params_deprecated_def)
  have h1: "JArr [JStr ''iceflow'', JStr ''time_step''] = JArr [JStr ''iceflow'', JStr ''time_step'']
      \<and> True = (JStr ''time_step'' \<in> set [JStr ''iceflow'', JStr ''time_step''])"
    by simp
  have s2: "subscript example_params ''modules_process'' = Inr (JArr [JStr ''iceflow''])"
    by (simp add: example_params_def)
  have h2: "JArr [JStr ''iceflow''] = JArr [JStr ''iceflow'']
      \<and> False = (JStr ''time_step'' \<in> set [JStr ''iceflow''])"
    by simp
  have s3: "subscript (JObj [(''modules_process'', JStr ''iceflow time'')]) ''modules_process'' =
      Inr (JStr ''iceflow time'')"
    by simp
  have "\<not> is_substring ''time_step'' ''iceflow time''" by simp
  then have h3: "JStr ''iceflow time'' = JStr ''iceflow time''
      \<and> False = (\<exists>pre post. ''iceflow time'' = pre @ ''time_step'' @ post)"
    by (simp only: is_substring_iff simp_thms)
  have s4: "subscript (JObj [(''modules_process'', JObj [(''time_step'', JInt 1)])])
      ''modules_process'' = Inr (JObj [(''time_step'', JInt 1)])"
    by simp
  have h4: "JObj [(''time_step'', JInt 1)] = JObj [(''time_step'', JInt 1)]
      \<and> True = (''time_step'' \<in> fst ` set [(''time_step'', JInt 1)])"
    by simp
  have x: "snd (overide_from_json_file example_parser example_params_string True) =
      Inl (SystemExit deprecation_message)"
    by (simp add: example_defs program_defs)
  from time_step_in_modules_process_aborts
         [where deprecated=True and names="[JStr ''iceflow'', JStr ''time_step'']"
            and dic_params=example_params_deprecated and parser=example_parser
            and check_if_params_exist=True
            and modules_process="JArr [JStr ''iceflow'', JStr ''time_step'']"] s1 h1
  have 1: "run_setup example_env example_parser example_params_deprecated True
             example_modules_dict =
     (['' ------- CHECK THE WIKI TO CHANGE YOUR PARAM FILE AND USER MODULES -------------''],
      Inl (SystemExit
        ''WARNING: the parameter time_step is deprecated, UPDATE you params.json file''))"
    by simp
  from time_step_in_modules_process_aborts
         [where deprecated=False and names="[JStr ''iceflow'']"
            and dic_params=example_params and parser=example_parser
            and check_if_params_exist=True and modules_process="JArr [JStr ''iceflow'']"] s2 h2
  have 2: "\<exists>printed parser'.
      overide_from_json_file example_parser example_params True = (printed, Inr parser')"
    by simp
  from time_step_in_modules_process_aborts
         [where deprecated=False and str="''iceflow time''"
            and dic_params="JObj [(''modules_process'', JStr ''iceflow time'')]"
            and parser=example_parser and check_if_params_exist=True
            and modules_process="JStr ''iceflow time''"] s3 h3
  have 3: "\<exists>printed parser'.
      overide_from_json_file example_parser
        (JObj [(''modules_process'', JStr ''iceflow time'')]) True = (printed, Inr parser')"
    by simp
  from time_step_in_modules_process_aborts
         [where deprecated=True and entries="[(''time_step'', JInt 1)]"
            and dic_params="JObj [(''modules_process'', JObj [(''time_step'', JInt 1)])]"
            and parser=example_parser and check_if_params_exist=False
            and modules_process="JObj [(''time_step'', JInt 1)]"] s4 h4
  have 4: "overide_from_json_file example_parser
     (JObj [(''modules_process'', JObj [(''time_step'', JInt 1)])]) False =
     (['' ------- CHECK THE WIKI TO CHANGE YOUR PARAM FILE AND USER MODULES -------------''],
      Inl (SystemExit
        ''WARNING: the parameter time_step is deprecated, UPDATE you params.json file''))"
    by simp
  from time_step_in_modules_process_aborts
         [where dic_params=example_params_string and parser=example_parser
            and check_if_params_exist=True and msg=deprecation_message] x
  have 5: "(\<exists>names. subscript example_params_string ''modules_process'' = Inr (JArr names) \<and>
         JStr ''time_step'' \<in> set names) \<or>
    (\<exists>str pre post. subscript example_params_string ''modules_process'' = Inr (JStr str) \<and>
         str = pre @ ''time_step'' @ post) \<or>
    (\<exists>entries. subscript example_params_string ''modules_process'' = Inr (JObj entries) \<and>
         ''time_step'' \<in> fst ` set entries)"
    by blast
  from 1 2 3 4 5 show ?thesis by blast
qed

text \<open>
  The claim without the amendment fails on a parameter file whose \<open>modules_process\<close>
  entry is the string \<open>my_time_stepper\<close>: no list contains \<open>time_step\<close>, and the
  parameter-override step aborts with the deprecation message.
\<close>

theorem time_step_substring_counterexample:
  "subscript example_params_string ''modules_process'' = Inr (JStr ''my_time_stepper'') \<and>
   overide_from_json_file example_parser example_params_string True =
     ([deprecation_banner], Inl (SystemExit deprecation_message))"
  by (simp add: example_defs program_defs)

text \<open>
  Claim C8, as amended. For a parsed configuration object whose \<open>modules_process\<close>
  entry can be searched and does not contain \<open>time_step\<close>, and for every parser: the
  function returns; the options of the new parser are the registered options; a
  registered key that the configuration has takes the configuration's value, every
  other registered key keeps its default, and an unregistered key is not applied. The
  lines printed are one warning for every unregistered key of the configuration, in the
  order of the keys, when \<open>check_if_params_exist\<close> is true, and none when it is false.
\<close>

theorem overrides_only_registered_keys:
  assumes "subscript (JObj items) ''modules_process'' = Inr modules_process"
    and "py_in ''time_step'' modules_process = Inr False"
  shows "\<exists>parser'.
           overide_from_json_file parser (JObj items) check_if_params_exist =
             ((if check_if_params_exist
               then map unknown_key_warning (filter (\<lambda>key. parser key = None) (map fst items))
               else []),
              Inr parser') \<and>
           dom parser' = dom parser \<and>
           (\<forall>key. parser' key =
              (if parser key = None then None
               else (case map_of items key of Some v \<Rightarrow> Some v | None \<Rightarrow> parser key)))"
proof -
  let ?p = "set_defaults parser (filter (\<lambda>(key, value). parser key \<noteq> None) items)"
  have r: "overide_from_json_file parser (JObj items) check_if_params_exist =
             ((if check_if_params_exist
               then map unknown_key_warning (filter (\<lambda>key. parser key = None) (map fst items))
               else []),
              Inr ?p)"
    using assms by (simp add: overide_from_json_file_def Let_def del: subscript.simps)
  have v: "\<forall>key. ?p key =
              (if parser key = None then None
               else (case map_of items key of Some v \<Rightarrow> Some v | None \<Rightarrow> parser key))"
    by (simp add: set_defaults_def map_add_def map_of_filter_key split: option.splits)
  have "\<And>key. (?p key = None) = (parser key = None)"
  proof -
    fix key
    show "(?p key = None) = (parser key = None)"
      unfolding v [rule_format, of key]
      by (cases "parser key"; cases "map_of items key") simp_all
  qed
  then have d: "dom ?p = dom parser"
    unfolding dom_def by simp
  from r d v show ?thesis by blast
qed

theorem overrides_only_registered_keys_witness:
  "\<exists>parser'.
     overide_from_json_file example_parser example_params True =
       ([''WARNING: the following parameters of the json file do not exist in igm:  colour''],
        Inr parser') \<and>
     dom parser' = dom example_parser \<and>
     parser' ''gpu'' = Some (JInt 1) \<and>
     parser' ''working_dir'' = Some (JStr []) \<and>
     parser' ''colour'' = None"
proof -
  have s: "subscript
      (JObj [(''modules_process'', JArr [JStr ''iceflow'']), (''gpu'', JInt 1),
             (''colour'', JStr ''blue'')]) ''modules_process'' = Inr (JArr [JStr ''iceflow''])"
    by simp
  have t: "py_in ''time_step'' (JArr [JStr ''iceflow'']) = Inr False"
    by simp
  from overrides_only_registered_keys [OF s t, of example_parser True]
  obtain parser' where
    r: "overide_from_json_file example_parser example_params True =
          (map unknown_key_warning
             (filter (\<lambda>key. example_parser key = None)
                (map fst [(''modules_process'', JArr [JStr ''iceflow'']), (''gpu'', JInt 1),
                          (''colour'', JStr ''blue'')])),
           Inr parser')" and
    d: "dom parser' = dom example_parser" and
    v: "\<forall>key. parser' key =
          (if example_parser key = None then None
           else (case map_of [(''modules_process'', JArr [JStr ''iceflow'']), (''gpu'', JInt 1),
                              (''colour'', JStr ''blue'')] key of
                   Some v \<Rightarrow> Some v | None \<Rightarrow> example_parser key))"
    unfolding example_params_def by auto
  have w: "map unknown_key_warning
             (filter (\<lambda>key. example_parser key = None)
                (map fst [(''modules_process'', JArr [JStr ''iceflow'']), (''gpu'', JInt 1),
                          (''colour'', JStr ''blue'')])) =
           [''WARNING: the following parameters of the json file do not exist in igm:  colour'']"
    by (simp add: example_parser_def unknown_key_warning_def)
  have g: "parser' ''gpu'' = Some (JInt 1)"
    unfolding v [rule_format] by (simp add: example_parser_def)
  have wd: "parser' ''working_dir'' = Some (JStr [])"
    unfolding v [rule_format] by (simp add: example_parser_def)
  have c: "parser' ''colour'' = None"
    unfolding v [rule_format] by (simp add: example_parser_def)
  from r d g wd c show ?thesis unfolding w by blast
qed

text \<open>
  The claim without the amendment fails in two ways on the unregistered key \<open>colour\<close>:
  with \<open>check_if_params_exist\<close> false the function prints no warning for it; and in the
  parameter file with the retired key, the run is aborted and no warning is printed for
  it either.
\<close>

theorem unregistered_key_without_warning_counterexample:
  "example_parser ''colour'' = None \<and>
   subscript example_params ''colour'' = Inr (JStr ''blue'') \<and>
   fst (overide_from_json_file example_parser example_params False) = [] \<and>
   \<not> isl (snd (overide_from_json_file example_parser example_params False)) \<and>
   subscript example_params_deprecated ''colour'' = Inr (JStr ''blue'') \<and>
   overide_from_json_file example_parser example_params_deprecated True =
     ([deprecation_banner], Inl (SystemExit deprecation_message))"
  by (simp add: example_defs program_defs)


end
